theory Spec2Isabelle
  imports Complex_Main
begin

section \<open>JavaScript values as the orchestrator sees them\<close>

text \<open>
  Numbers of the program are IEEE doubles; the model computes with exact rationals in their
  place, so the rounding of doubles and \<open>NaN\<close> are not represented.  Strings are
  character lists.
\<close>

datatype js_error = JsError string

text \<open>Truthiness of a possibly missing string and of a possibly missing number.\<close>

fun truthy_str :: "string option \<Rightarrow> bool" where
  "truthy_str None = False"
| "truthy_str (Some s) = (s \<noteq> [])"

fun truthy_num :: "rat option \<Rightarrow> bool" where
  "truthy_num None = False"
| "truthy_num (Some x) = (x \<noteq> 0)"

text \<open>The operator \<open>a || d\<close> at the two types it is used at.\<close>

definition or_str :: "string option \<Rightarrow> string \<Rightarrow> string" where
  "or_str a d = (if truthy_str a then the a else d)"

definition or_num :: "rat option \<Rightarrow> rat \<Rightarrow> rat" where
  "or_num a d = (if truthy_num a then the a else d)"

text \<open>Decimal rendering of a count inside a template string.\<close>

fun show_nat :: "nat \<Rightarrow> string" where
  "show_nat n =
     (if n < 10 then [''0123456789'' ! n]
      else show_nat (n div 10) @ [''0123456789'' ! (n mod 10)])"

section \<open>Data model\<close>

record Player =
  player_id :: string
  player_name :: string

record Match =
  match_id :: string
  player1Id :: string
  player2Id :: string
  surface :: string

record FactorAnalysis =
  factor :: string
  conclusion :: string
  advantage :: string
  confidence :: rat
  reasoning :: string

text \<open>
  What a task function hands to the orchestrator is typed \<open>any\<close> there: every field may
  be missing, and the whole result may be \<open>null\<close> or \<open>undefined\<close> (\<open>None\<close> below).
\<close>

record RawResult =
  raw_agentName :: "string option"
  raw_factor :: "string option"
  raw_conclusion :: "string option"
  raw_advantage :: "string option"
  raw_confidence :: "rat option"
  raw_reasoning :: "string option"

datatype category_value = ResultArray "RawResult option list" | NotArray

type_synonym analysis_results = "(string \<times> category_value) list"

record AnalysisResult =
  predictedWinnerId :: string
  winProbability :: rat
  confidenceLevel :: rat
  factorAnalysis :: "FactorAnalysis list"
  synthesisReasoning :: string
  agentContributions :: analysis_results

record AIResponse =
  ai_predictedWinner :: string
  ai_winProbability :: rat
  ai_confidenceLevel :: rat
  ai_reasoning :: string

section \<open>The synthesizer\<close>

text \<open>The inner \<open>results.forEach\<close> of \<open>synthesizePrediction\<close>, pushing onto \<open>factorAnalyses\<close>.\<close>

fun pushResults :: "string \<Rightarrow> RawResult option list \<Rightarrow> FactorAnalysis list \<Rightarrow> FactorAnalysis list" where
  "pushResults category [] factorAnalyses = factorAnalyses"
| "pushResults category (None # rest) factorAnalyses = pushResults category rest factorAnalyses"
| "pushResults category (Some result # rest) factorAnalyses =
     pushResults category rest
       (if truthy_str (raw_conclusion result)
        then factorAnalyses @
          [\<lparr>factor = or_str (raw_factor result) category,
            conclusion = the (raw_conclusion result),
            advantage = or_str (raw_advantage result) ''none'',
            confidence = or_num (raw_confidence result) 0.5,
            reasoning = or_str (raw_reasoning result) ''''\<rparr>]
        else factorAnalyses)"

text \<open>The outer \<open>Object.entries(analysisResults).forEach\<close>.\<close>

fun compileFactorAnalyses :: "analysis_results \<Rightarrow> FactorAnalysis list \<Rightarrow> FactorAnalysis list" where
  "compileFactorAnalyses [] factorAnalyses = factorAnalyses"
| "compileFactorAnalyses ((category, ResultArray results) # rest) factorAnalyses =
     compileFactorAnalyses rest (pushResults category results factorAnalyses)"
| "compileFactorAnalyses ((category, NotArray) # rest) factorAnalyses =
     compileFactorAnalyses rest factorAnalyses"

definition player1Advantages :: "FactorAnalysis list \<Rightarrow> nat" where
  "player1Advantages factorAnalyses =
     length (filter (\<lambda>fa. advantage fa = ''player1'' \<or> advantage fa = ''slight_player1'') factorAnalyses)"

definition player2Advantages :: "FactorAnalysis list \<Rightarrow> nat" where
  "player2Advantages factorAnalyses =
     length (filter (\<lambda>fa. advantage fa = ''player2'' \<or> advantage fa = ''slight_player2'') factorAnalyses)"

text \<open>The \<open>catch\<close> branch of \<open>synthesizePrediction\<close>: the majority vote.\<close>

definition fallbackVote :: "Player \<Rightarrow> Player \<Rightarrow> FactorAnalysis list \<Rightarrow> analysis_results \<Rightarrow> AnalysisResult" where
  "fallbackVote player1 player2 factorAnalyses analysisResults =
     (let p1 = player1Advantages factorAnalyses;
          p2 = player2Advantages factorAnalyses
      in \<lparr>predictedWinnerId = (if p1 > p2 then player_id player1 else player_id player2),
          winProbability = max 0.5 (min 0.9 (0.5 + of_int \<bar>int p1 - int p2\<bar> * 0.05)),
          confidenceLevel = 0.75,
          factorAnalysis = factorAnalyses,
          synthesisReasoning =
            ''Based on factor analysis: '' @ show_nat p1 @ '' factors favor '' @ player_name player1 @
            '', '' @ show_nat p2 @ '' factors favor '' @ player_name player2 @
            ''. Prediction made using fallback majority vote system.'',
          agentContributions = analysisResults\<rparr>)"

text \<open>
  \<open>synthesizePrediction\<close>; the outcome of the completion call \<open>generatePrediction\<close> is the
  argument \<open>aiResponse\<close>, \<open>Inl\<close> when the call throws.
\<close>

definition synthesizePrediction ::
  "Match \<Rightarrow> Player \<Rightarrow> Player \<Rightarrow> analysis_results \<Rightarrow> js_error + AIResponse \<Rightarrow> AnalysisResult" where
  "synthesizePrediction match player1 player2 analysisResults aiResponse =
     (let factorAnalyses = compileFactorAnalyses analysisResults []
      in case aiResponse of
           Inr r \<Rightarrow>
             \<lparr>predictedWinnerId =
                (if ai_predictedWinner r = ''player1'' then player_id player1 else player_id player2),
              winProbability = ai_winProbability r,
              confidenceLevel = ai_confidenceLevel r,
              factorAnalysis = factorAnalyses,
              synthesisReasoning = ai_reasoning r,
              agentContributions = analysisResults\<rparr>
         | Inl e \<Rightarrow> fallbackVote player1 player2 factorAnalyses analysisResults)"

section \<open>Reading the advantage out of a completion reply\<close>

text \<open>\<open>String.prototype.includes\<close>, case-sensitive.\<close>

fun startsWith :: "string \<Rightarrow> string \<Rightarrow> bool" where
  "startsWith s [] = True"
| "startsWith [] (p # ps) = False"
| "startsWith (c # cs) (p # ps) = (c = p \<and> startsWith cs ps)"

fun includesStr :: "string \<Rightarrow> string \<Rightarrow> bool" where
  "includesStr [] sub = startsWith [] sub"
| "includesStr (c # cs) sub = (startsWith (c # cs) sub \<or> includesStr cs sub)"

text \<open>
  The regular expression of \<open>extractAdvantage\<close> carries the flag \<open>i\<close>: a pattern character
  and an input character match when their canonical (upper-case) forms agree.  Only the
  letters a to z have an ASCII canonical form different from themselves.
\<close>

definition canonicalize :: "char \<Rightarrow> char" where
  "canonicalize c =
     (case map_of (zip ''abcdefghijklmnopqrstuvwxyz'' ''ABCDEFGHIJKLMNOPQRSTUVWXYZ'') c of
        Some u \<Rightarrow> u
      | None \<Rightarrow> c)"

text \<open>A literal piece of the pattern at the start of the input: the text it matched and the rest.\<close>

fun matchLiteral :: "string \<Rightarrow> string \<Rightarrow> (string \<times> string) option" where
  "matchLiteral [] input = Some ([], input)"
| "matchLiteral (p # ps) [] = None"
| "matchLiteral (p # ps) (c # cs) =
     (if canonicalize p = canonicalize c
      then (case matchLiteral ps cs of
              Some (m, rest) \<Rightarrow> Some (c # m, rest)
            | None \<Rightarrow> None)
      else None)"

text \<open>The capture group \<open>(\d|[12])\<close>.\<close>

definition matchPlayerNum :: "string \<Rightarrow> (string \<times> string) option" where
  "matchPlayerNum input =
     (case input of
        [] \<Rightarrow> None
      | c # cs \<Rightarrow> if c \<in> set ''0123456789'' \<or> c \<in> set ''12'' then Some ([c], cs) else None)"

record RegExpMatch =
  match0 :: string
  match1 :: "string option"
  match2 :: "string option"

text \<open>The three alternatives of the pattern, tried in this order at one position.\<close>

definition matchAdvantagePlayer :: "string \<Rightarrow> RegExpMatch option" where
  "matchAdvantagePlayer input =
     (case matchLiteral ''**Advantage Player '' input of
        None \<Rightarrow> None
      | Some (a, r1) \<Rightarrow>
          (case matchPlayerNum r1 of
             None \<Rightarrow> None
           | Some (n, r2) \<Rightarrow>
               (case matchLiteral ''**'' r2 of
                  None \<Rightarrow> None
                | Some (b, r3) \<Rightarrow> Some \<lparr>match0 = a @ n @ b, match1 = Some n, match2 = None\<rparr>)))"

definition matchSlightAdvantagePlayer :: "string \<Rightarrow> RegExpMatch option" where
  "matchSlightAdvantagePlayer input =
     (case matchLiteral ''**Slight Advantage Player '' input of
        None \<Rightarrow> None
      | Some (a, r1) \<Rightarrow>
          (case matchPlayerNum r1 of
             None \<Rightarrow> None
           | Some (n, r2) \<Rightarrow>
               (case matchLiteral ''**'' r2 of
                  None \<Rightarrow> None
                | Some (b, r3) \<Rightarrow> Some \<lparr>match0 = a @ n @ b, match1 = None, match2 = Some n\<rparr>)))"

definition matchNoClearAdvantage :: "string \<Rightarrow> RegExpMatch option" where
  "matchNoClearAdvantage input =
     (case matchLiteral ''**No Clear Advantage**'' input of
        None \<Rightarrow> None
      | Some (a, r1) \<Rightarrow> Some \<lparr>match0 = a, match1 = None, match2 = None\<rparr>)"

definition matchAt :: "string \<Rightarrow> RegExpMatch option" where
  "matchAt input =
     (case matchAdvantagePlayer input of
        Some m \<Rightarrow> Some m
      | None \<Rightarrow>
          (case matchSlightAdvantagePlayer input of
             Some m \<Rightarrow> Some m
           | None \<Rightarrow> matchNoClearAdvantage input))"

text \<open>\<open>analysis.match(/.../i)\<close>: the match at the leftmost position that has one.\<close>

fun regExpSearch :: "string \<Rightarrow> RegExpMatch option" where
  "regExpSearch [] = matchAt []"
| "regExpSearch (c # cs) =
     (case matchAt (c # cs) of
        Some m \<Rightarrow> Some m
      | None \<Rightarrow> regExpSearch cs)"

text \<open>A value inside a template string; a capture group that took no part is \<open>undefined\<close>.\<close>

fun template :: "string option \<Rightarrow> string" where
  "template None = ''undefined''"
| "template (Some s) = s"

record Advantage =
  adv_player :: string
  adv_conclusion :: string

text \<open>\<open>extractAdvantage\<close> of the statistical, physical-condition and match-up agents.\<close>

definition extractAdvantage :: "string \<Rightarrow> Advantage" where
  "extractAdvantage analysis =
     (case regExpSearch analysis of
        Some advantageMatch \<Rightarrow>
          if includesStr (match0 advantageMatch) ''No Clear''
          then \<lparr>adv_player = ''none'', adv_conclusion = ''No Clear Advantage''\<rparr>
          else
            (let playerNum = (if truthy_str (match1 advantageMatch)
                              then match1 advantageMatch else match2 advantageMatch);
                 isSlight = includesStr (match0 advantageMatch) ''Slight''
             in \<lparr>adv_player = ''player'' @ template playerNum,
                 adv_conclusion = (if isSlight then ''Slight '' else '''') @
                                  ''Advantage Player '' @ template playerNum\<rparr>)
      | None \<Rightarrow> \<lparr>adv_player = ''none'', adv_conclusion = ''No Clear Advantage''\<rparr>)"

section \<open>Analysis task functions\<close>

text \<open>
  The \<open>analysis\<close> payload of a task result is opaque to the orchestrator.  A \<open>catch\<close>
  block sets it to the empty object, the head-to-head one to a record of zero meetings.
\<close>

datatype 'd analysis_payload = EmptyObject | NoMeetings | AnalysisData 'd

record 'd TaskResult = FactorAnalysis +
  agentName :: string
  analysis :: "'d analysis_payload"
  processingTime :: int

text \<open>
  The nineteen task functions, and the record each returns from its \<open>catch\<close> block;
  \<open>elapsed\<close> is \<open>Date.now() - startTime\<close>.
\<close>

datatype task =
    AnalyzeRecentMatches
  | AnalyzeMomentum
  | AnalyzeClutchPerformance
  | AnalyzeSurfaceSuitability
  | AnalyzeEnvironment
  | AnalyzeServePerformance
  | AnalyzeReturnPerformance
  | AnalyzeRallyPatterns
  | AnalyzePressurePerformance
  | AnalyzeStatisticalTrends
  | AnalyzeScheduleBurden
  | AnalyzeRecentMatchToll
  | AnalyzeInjuryFitnessStatus
  | AnalyzeAgeEndurance
  | AnalyzePlayingStyles
  | AnalyzeHeadToHead
  | AnalyzeTacticalBattle
  | AnalyzeNewsAndContext
  | ReportDataGapsAndLimitations

fun catchRecord :: "task \<Rightarrow> int \<Rightarrow> 'd TaskResult" where
  "catchRecord AnalyzeRecentMatches elapsed =
     \<lparr>factor = ''Factor 1.1 (Recent Match Results)'',
      conclusion = ''Analysis Error - Insufficient Data'',
      advantage = ''none'',
      confidence = 0.0,
      reasoning = ''Unable to analyze recent form due to data limitations.'',
      agentName = ''Recent Matches Analyst'',
      analysis = EmptyObject,
      processingTime = elapsed\<rparr>"
| "catchRecord AnalyzeMomentum elapsed =
     \<lparr>factor = ''Factor 1.2 (Momentum & Consistency)'',
      conclusion = ''Analysis Error - Insufficient Data'',
      advantage = ''none'',
      confidence = 0.0,
      reasoning = ''Unable to analyze momentum due to data limitations.'',
      agentName = ''Momentum Analyst'',
      analysis = EmptyObject,
      processingTime = elapsed\<rparr>"
| "catchRecord AnalyzeClutchPerformance elapsed =
     \<lparr>factor = ''Factor 1.3 (Clutch Moments Recently)'',
      conclusion = ''Analysis Error - Insufficient Data'',
      advantage = ''none'',
      confidence = 0.0,
      reasoning = ''Unable to analyze clutch performance due to data limitations.'',
      agentName = ''Clutch Performance Analyst'',
      analysis = EmptyObject,
      processingTime = elapsed\<rparr>"
| "catchRecord AnalyzeSurfaceSuitability elapsed =
     \<lparr>factor = ''Factor 2.1 (Surface Fit)'',
      conclusion = ''Analysis Error'',
      advantage = ''none'',
      confidence = 0.0,
      reasoning = ''Unable to analyze surface suitability due to data limitations.'',
      agentName = ''Surface Suitability Analyst'',
      analysis = EmptyObject,
      processingTime = elapsed\<rparr>"
| "catchRecord AnalyzeEnvironment elapsed =
     \<lparr>factor = ''Factor 2.2 (Conditions & Acclimatization)'',
      conclusion = ''No Clear Advantage'',
      advantage = ''none'',
      confidence = 0.5,
      reasoning = ''Environmental conditions appear neutral for both players.'',
      agentName = ''Environment Analyst'',
      analysis = EmptyObject,
      processingTime = elapsed\<rparr>"
| "catchRecord AnalyzeServePerformance elapsed =
     \<lparr>factor = ''Factor 3.1 (Serve Performance)'',
      conclusion = ''Analysis Error'',
      advantage = ''none'',
      confidence = 0.0,
      reasoning = ''Unable to analyze serve performance due to data limitations.'',
      agentName = ''Service Performance Analyst'',
      analysis = EmptyObject,
      processingTime = elapsed\<rparr>"
| "catchRecord AnalyzeReturnPerformance elapsed =
     \<lparr>factor = ''Factor 3.2 (Return Performance)'',
      conclusion = ''Analysis Error'',
      advantage = ''none'',
      confidence = 0.0,
      reasoning = ''Unable to analyze return performance due to data limitations.'',
      agentName = ''Return Performance Analyst'',
      analysis = EmptyObject,
      processingTime = elapsed\<rparr>"
| "catchRecord AnalyzeRallyPatterns elapsed =
     \<lparr>factor = ''Factor 3.3 (Rally Patterns)'',
      conclusion = ''Analysis Error'',
      advantage = ''none'',
      confidence = 0.0,
      reasoning = ''Unable to analyze rally patterns due to data limitations.'',
      agentName = ''Rally & Point Construction Analyst'',
      analysis = EmptyObject,
      processingTime = elapsed\<rparr>"
| "catchRecord AnalyzePressurePerformance elapsed =
     \<lparr>factor = ''Factor 3.4 (Clutch Performance 52-week)'',
      conclusion = ''Analysis Error'',
      advantage = ''none'',
      confidence = 0.0,
      reasoning = ''Unable to analyze pressure performance due to data limitations.'',
      agentName = ''Pressure Statistics Analyst'',
      analysis = EmptyObject,
      processingTime = elapsed\<rparr>"
| "catchRecord AnalyzeStatisticalTrends elapsed =
     \<lparr>factor = ''Factor 3.5 (Recent Stat Trends)'',
      conclusion = ''Analysis Error'',
      advantage = ''none'',
      confidence = 0.0,
      reasoning = ''Unable to analyze statistical trends due to data limitations.'',
      agentName = ''Statistical Trend Analyst'',
      analysis = EmptyObject,
      processingTime = elapsed\<rparr>"
| "catchRecord AnalyzeScheduleBurden elapsed =
     \<lparr>factor = ''Factor 4.1 (Schedule & Fatigue)'',
      conclusion = ''Analysis Error'',
      advantage = ''none'',
      confidence = 0.0,
      reasoning = ''Unable to analyze schedule burden due to data limitations.'',
      agentName = ''Recent Schedule Burden Analyst'',
      analysis = EmptyObject,
      processingTime = elapsed\<rparr>"
| "catchRecord AnalyzeRecentMatchToll elapsed =
     \<lparr>factor = ''Factor 4.2 (Last Match Impact)'',
      conclusion = ''Analysis Error'',
      advantage = ''none'',
      confidence = 0.0,
      reasoning = ''Unable to analyze recent match toll due to data limitations.'',
      agentName = ''Recent Match Physical Toll Analyst'',
      analysis = EmptyObject,
      processingTime = elapsed\<rparr>"
| "catchRecord AnalyzeInjuryFitnessStatus elapsed =
     \<lparr>factor = ''Factor 4.3 (Injury & Fitness)'',
      conclusion = ''No Known Issues'',
      advantage = ''none'',
      confidence = 0.5,
      reasoning = ''No confirmed injury or fitness concerns for either player.'',
      agentName = ''Injury & Fitness Status Monitor'',
      analysis = EmptyObject,
      processingTime = elapsed\<rparr>"
| "catchRecord AnalyzeAgeEndurance elapsed =
     \<lparr>factor = ''Factor 4.4 (Age & Stamina)'',
      conclusion = ''Analysis Error'',
      advantage = ''none'',
      confidence = 0.0,
      reasoning = ''Unable to analyze age and endurance factors due to data limitations.'',
      agentName = ''Age & Endurance Profiler'',
      analysis = EmptyObject,
      processingTime = elapsed\<rparr>"
| "catchRecord AnalyzePlayingStyles elapsed =
     \<lparr>factor = ''Factor 5.1 (Style Matchup)'',
      conclusion = ''Analysis Error'',
      advantage = ''none'',
      confidence = 0.0,
      reasoning = ''Unable to analyze playing styles due to data limitations.'',
      agentName = ''Playing Style Profiler'',
      analysis = EmptyObject,
      processingTime = elapsed\<rparr>"
| "catchRecord AnalyzeHeadToHead elapsed =
     \<lparr>factor = ''Factor 5.2 (Head-to-Head)'',
      conclusion = ''No Previous Meetings'',
      advantage = ''none'',
      confidence = 0.0,
      reasoning = ''These players have never met before, so head-to-head analysis is based on style matchup only.'',
      agentName = ''Head-to-Head Analyst'',
      analysis = NoMeetings,
      processingTime = elapsed\<rparr>"
| "catchRecord AnalyzeTacticalBattle elapsed =
     \<lparr>factor = ''Factor 5.3 (Projected Tactical Battle)'',
      conclusion = ''Analysis Error'',
      advantage = ''none'',
      confidence = 0.0,
      reasoning = ''Unable to synthesize tactical battle due to data limitations.'',
      agentName = ''Tactical Battle Synthesizer'',
      analysis = EmptyObject,
      processingTime = elapsed\<rparr>"
| "catchRecord AnalyzeNewsAndContext elapsed =
     \<lparr>factor = ''Factor 6.1 (Recent News & Context)'',
      conclusion = ''No Significant News'',
      advantage = ''none'',
      confidence = 0.5,
      reasoning = ''No significant recent news or contextual factors identified for either player.'',
      agentName = ''News Monitor'',
      analysis = EmptyObject,
      processingTime = elapsed\<rparr>"
| "catchRecord ReportDataGapsAndLimitations elapsed =
     \<lparr>factor = ''Factor 6.2 (Data Limitations)'',
      conclusion = ''Limited Data Available'',
      advantage = ''none'',
      confidence = 0.3,
      reasoning = ''Analysis based on limited available data. Results should be interpreted with caution.'',
      agentName = ''Data Gaps & Uncertainty Reporter'',
      analysis = EmptyObject,
      processingTime = elapsed\<rparr>"

text \<open>
  Every task function has the shape \<open>startTime = Date.now(); try {...} catch (error) {...}\<close>.
  The outcome of the \<open>try\<close> block is \<open>tryBlock\<close>: \<open>Inr\<close> the record it returns, \<open>Inl\<close> the
  error thrown anywhere inside it.
\<close>

definition taskFunction :: "task \<Rightarrow> js_error + 'd TaskResult \<Rightarrow> int \<Rightarrow> int \<Rightarrow> 'd TaskResult" where
  "taskFunction t tryBlock startTime now =
     (case tryBlock of
        Inr result \<Rightarrow> result
      | Inl e \<Rightarrow> catchRecord t (now - startTime))"

subsection \<open>Service Performance Analyst\<close>

record ServeStats =
  firstServePercentage :: rat
  firstServeWinRate :: rat
  secondServeWinRate :: rat
  aceRate :: rat
  doubleFaultRate :: rat
  serviceGamesHeld :: rat
  breakPointsSaved :: rat

text \<open>The statistics are drawn with \<open>Math.random()\<close>; \<open>random i\<close> is the \<open>i\<close>-th draw.\<close>

definition getPlayerServeStats :: "(nat \<Rightarrow> rat) \<Rightarrow> ServeStats" where
  "getPlayerServeStats random =
     \<lparr>firstServePercentage = 0.60 + random 0 * 0.15,
      firstServeWinRate = 0.70 + random 1 * 0.15,
      secondServeWinRate = 0.45 + random 2 * 0.15,
      aceRate = 0.08 + random 3 * 0.10,
      doubleFaultRate = 0.03 + random 4 * 0.04,
      serviceGamesHeld = 0.80 + random 5 * 0.15,
      breakPointsSaved = 0.60 + random 6 * 0.20\<rparr>"

record ServeAnalysisData =
  serve_player1 :: "string \<times> ServeStats"
  serve_player2 :: "string \<times> ServeStats"
  serve_surface :: string

definition calculateServeConfidence :: "ServeStats \<Rightarrow> ServeStats \<Rightarrow> rat" where
  "calculateServeConfidence stats1 stats2 =
     (let metrics = [firstServeWinRate, serviceGamesHeld, aceRate];
          advantages = length (filter (\<lambda>metric. \<bar>metric stats1 - metric stats2\<bar> > 0.1) metrics)
      in min 0.9 (0.5 + of_nat advantages * 0.15))"

text \<open>
  The completion client \<open>analyzeFactorWithSpecializedPrompt\<close> is the argument \<open>completion\<close>,
  applied to the factor name and the data; the prompt text is a constant of each task.  It
  returns the reply, or \<open>Inl\<close> when the call throws.
\<close>

definition analyzeServePerformance_try ::
  "(string \<Rightarrow> ServeAnalysisData \<Rightarrow> js_error + string) \<Rightarrow> Match \<Rightarrow> Player \<Rightarrow> Player \<Rightarrow>
   (nat \<Rightarrow> rat) \<Rightarrow> (nat \<Rightarrow> rat) \<Rightarrow> int \<Rightarrow> int \<Rightarrow> js_error + ServeAnalysisData TaskResult" where
  "analyzeServePerformance_try completion match player1 player2 random1 random2 startTime now =
     (let player1ServeStats = getPlayerServeStats random1;
          player2ServeStats = getPlayerServeStats random2;
          analysisData = \<lparr>serve_player1 = (player_name player1, player1ServeStats),
                          serve_player2 = (player_name player2, player2ServeStats),
                          serve_surface = surface match\<rparr>
      in case completion ''Serve Performance'' analysisData of
           Inl e \<Rightarrow> Inl e
         | Inr aiAnalysis \<Rightarrow>
             (let advantage = extractAdvantage aiAnalysis;
                  confidence = calculateServeConfidence player1ServeStats player2ServeStats
              in Inr \<lparr>factor = ''Factor 3.1 (Serve Performance)'',
                      conclusion = adv_conclusion advantage,
                      advantage = adv_player advantage,
                      confidence = confidence,
                      reasoning = aiAnalysis,
                      agentName = ''Service Performance Analyst'',
                      analysis = AnalysisData analysisData,
                      processingTime = now - startTime\<rparr>))"

definition analyzeServePerformance ::
  "(string \<Rightarrow> ServeAnalysisData \<Rightarrow> js_error + string) \<Rightarrow> Match \<Rightarrow> Player \<Rightarrow> Player \<Rightarrow>
   (nat \<Rightarrow> rat) \<Rightarrow> (nat \<Rightarrow> rat) \<Rightarrow> int \<Rightarrow> int \<Rightarrow> ServeAnalysisData TaskResult" where
  "analyzeServePerformance completion match player1 player2 random1 random2 startTime now =
     taskFunction AnalyzeServePerformance
       (analyzeServePerformance_try completion match player1 player2 random1 random2 startTime now)
       startTime now"

subsection \<open>Injury and Fitness Status Monitor\<close>

record PhysicalStatus =
  recentInjuries :: "string list"
  fitnessLevel :: string
  recentRetirements :: nat
  medicalTimeouts :: nat
  physicalNotes :: "string list"

text \<open>
  \<open>player.fitnessLevel || 'good'\<close>: a player row has no such column, so the level is always
  the default.  \<open>random\<close> is the one draw of \<open>Math.random()\<close>.
\<close>

definition getPlayerPhysicalStatus :: "Player \<Rightarrow> rat \<Rightarrow> PhysicalStatus" where
  "getPlayerPhysicalStatus player random =
     \<lparr>recentInjuries = [],
      fitnessLevel = ''good'',
      recentRetirements = 0,
      medicalTimeouts = nat \<lfloor>random * 2\<rfloor>,
      physicalNotes = []\<rparr>"

record FitnessAnalysisData =
  fitness_player1 :: "string \<times> PhysicalStatus"
  fitness_player2 :: "string \<times> PhysicalStatus"

definition calculateFitnessConfidence :: "PhysicalStatus \<Rightarrow> PhysicalStatus \<Rightarrow> rat" where
  "calculateFitnessConfidence status1 status2 =
     (if length (recentInjuries status1) > 0 \<or> length (recentInjuries status2) > 0 then 0.9
      else if medicalTimeouts status1 > 0 \<or> medicalTimeouts status2 > 0 then 0.75
      else 0.5)"

definition analyzeInjuryFitnessStatus_try ::
  "(string \<Rightarrow> FitnessAnalysisData \<Rightarrow> js_error + string) \<Rightarrow> Match \<Rightarrow> Player \<Rightarrow> Player \<Rightarrow>
   rat \<Rightarrow> rat \<Rightarrow> int \<Rightarrow> int \<Rightarrow> js_error + FitnessAnalysisData TaskResult" where
  "analyzeInjuryFitnessStatus_try completion match player1 player2 random1 random2 startTime now =
     (let player1Status = getPlayerPhysicalStatus player1 random1;
          player2Status = getPlayerPhysicalStatus player2 random2;
          analysisData = \<lparr>fitness_player1 = (player_name player1, player1Status),
                          fitness_player2 = (player_name player2, player2Status)\<rparr>
      in case completion ''Injury and Fitness Status'' analysisData of
           Inl e \<Rightarrow> Inl e
         | Inr aiAnalysis \<Rightarrow>
             (let advantage = extractAdvantage aiAnalysis;
                  confidence = calculateFitnessConfidence player1Status player2Status
              in Inr \<lparr>factor = ''Factor 4.3 (Injury & Fitness)'',
                      conclusion = adv_conclusion advantage,
                      advantage = adv_player advantage,
                      confidence = confidence,
                      reasoning = aiAnalysis,
                      agentName = ''Injury & Fitness Status Monitor'',
                      analysis = AnalysisData analysisData,
                      processingTime = now - startTime\<rparr>))"

definition analyzeInjuryFitnessStatus ::
  "(string \<Rightarrow> FitnessAnalysisData \<Rightarrow> js_error + string) \<Rightarrow> Match \<Rightarrow> Player \<Rightarrow> Player \<Rightarrow>
   rat \<Rightarrow> rat \<Rightarrow> int \<Rightarrow> int \<Rightarrow> FitnessAnalysisData TaskResult" where
  "analyzeInjuryFitnessStatus completion match player1 player2 random1 random2 startTime now =
     taskFunction AnalyzeInjuryFitnessStatus
       (analyzeInjuryFitnessStatus_try completion match player1 player2 random1 random2 startTime now)
       startTime now"

subsection \<open>Tactical Battle Synthesizer\<close>

record Tactics =
  servePatterns :: "string list"
  returnStrategy :: "string list"
  rallyPatterns :: "string list"
  pressureResponse :: "string list"

definition analyzeTacticalApproach :: "Player \<Rightarrow> string \<Rightarrow> Tactics" where
  "analyzeTacticalApproach player surface' =
     \<lparr>servePatterns = [''Wide serves to open court'', ''Body serves under pressure''],
      returnStrategy = [''Deep returns to baseline'', ''Aggressive on second serves''],
      rallyPatterns = [''Cross-court consistency'', ''Down-the-line winners''],
      pressureResponse = [''Increases first serve percentage'', ''Shortens points'']\<rparr>"

record Gameplan =
  primary :: string
  secondary :: string
  serving :: string
  returning :: string

definition generateGameplan :: "Player \<Rightarrow> Player \<Rightarrow> string \<Rightarrow> Gameplan" where
  "generateGameplan player opponent surface' =
     \<lparr>primary = ''Exploit '' @ player_name opponent @ [CHR 0x27] @ ''s backhand with heavy topspin'',
      secondary = ''Use drop shots to bring opponent forward'',
      serving = ''Target body serves on important points'',
      returning = ''Stand closer on second serve returns''\<rparr>"

definition identifyKeyBattlegrounds :: "Tactics \<Rightarrow> Tactics \<Rightarrow> string list" where
  "identifyKeyBattlegrounds tactics1 tactics2 =
     [''First serve percentage - crucial for holding serve'',
      ''Return depth - establishing baseline control'',
      ''Cross-court rallies - pattern establishment'',
      ''Break point conversion - mental toughness'']"

text \<open>
  \<open>styleContext\<close> and \<open>h2hContext\<close> hold the fourth and fifth argument of
  \<open>analyzeTacticalBattle\<close>; \<open>None\<close> is \<open>undefined\<close>, an argument the caller did not pass.
\<close>

record ('s, 'h) TacticalAnalysisData =
  tactical_player1 :: "string \<times> Tactics \<times> Gameplan"
  tactical_player2 :: "string \<times> Tactics \<times> Gameplan"
  tactical_surface :: string
  keyBattlegrounds :: "string list"
  styleContext :: "'s option"
  h2hContext :: "'h option"

definition calculateTacticalConfidence :: "Tactics \<Rightarrow> Tactics \<Rightarrow> string \<Rightarrow> rat" where
  "calculateTacticalConfidence tactics1 tactics2 surface' = 0.7"

definition tacticalAnalysisData ::
  "Match \<Rightarrow> Player \<Rightarrow> Player \<Rightarrow> 's option \<Rightarrow> 'h option \<Rightarrow> ('s, 'h) TacticalAnalysisData" where
  "tacticalAnalysisData match player1 player2 styleAnalysis h2hAnalysis =
     (let player1Tactics = analyzeTacticalApproach player1 (surface match);
          player2Tactics = analyzeTacticalApproach player2 (surface match)
      in \<lparr>tactical_player1 = (player_name player1, player1Tactics,
                               generateGameplan player1 player2 (surface match)),
          tactical_player2 = (player_name player2, player2Tactics,
                               generateGameplan player2 player1 (surface match)),
          tactical_surface = surface match,
          keyBattlegrounds = identifyKeyBattlegrounds player1Tactics player2Tactics,
          styleContext = styleAnalysis,
          h2hContext = h2hAnalysis\<rparr>)"

definition analyzeTacticalBattle_try ::
  "(string \<Rightarrow> ('s, 'h) TacticalAnalysisData \<Rightarrow> js_error + string) \<Rightarrow> Match \<Rightarrow> Player \<Rightarrow> Player \<Rightarrow>
   's option \<Rightarrow> 'h option \<Rightarrow> int \<Rightarrow> int \<Rightarrow> js_error + ('s, 'h) TacticalAnalysisData TaskResult" where
  "analyzeTacticalBattle_try completion match player1 player2 styleAnalysis h2hAnalysis startTime now =
     (let player1Tactics = analyzeTacticalApproach player1 (surface match);
          player2Tactics = analyzeTacticalApproach player2 (surface match);
          analysisData = tacticalAnalysisData match player1 player2 styleAnalysis h2hAnalysis
      in case completion ''Tactical Battle'' analysisData of
           Inl e \<Rightarrow> Inl e
         | Inr aiAnalysis \<Rightarrow>
             (let advantage = extractAdvantage aiAnalysis;
                  confidence = calculateTacticalConfidence player1Tactics player2Tactics (surface match)
              in Inr \<lparr>factor = ''Factor 5.3 (Projected Tactical Battle)'',
                      conclusion = adv_conclusion advantage,
                      advantage = adv_player advantage,
                      confidence = confidence,
                      reasoning = aiAnalysis,
                      agentName = ''Tactical Battle Synthesizer'',
                      analysis = AnalysisData analysisData,
                      processingTime = now - startTime\<rparr>))"

definition analyzeTacticalBattle ::
  "(string \<Rightarrow> ('s, 'h) TacticalAnalysisData \<Rightarrow> js_error + string) \<Rightarrow> Match \<Rightarrow> Player \<Rightarrow> Player \<Rightarrow>
   's option \<Rightarrow> 'h option \<Rightarrow> int \<Rightarrow> int \<Rightarrow> ('s, 'h) TacticalAnalysisData TaskResult" where
  "analyzeTacticalBattle completion match player1 player2 styleAnalysis h2hAnalysis startTime now =
     taskFunction AnalyzeTacticalBattle
       (analyzeTacticalBattle_try completion match player1 player2 styleAnalysis h2hAnalysis startTime now)
       startTime now"

text \<open>A task result as the orchestrator reads it: every field present.\<close>

definition toRaw :: "'d TaskResult \<Rightarrow> RawResult" where
  "toRaw result =
     \<lparr>raw_agentName = Some (agentName result),
      raw_factor = Some (factor result),
      raw_conclusion = Some (conclusion result),
      raw_advantage = Some (advantage result),
      raw_confidence = Some (confidence result),
      raw_reasoning = Some (reasoning result)\<rparr>"

section \<open>The orchestrator\<close>

datatype Status = Active | Processing | Idle | Error

record AgentStatus =
  name :: string
  agentType :: string
  status :: Status
  lastActivity :: int
  accuracy :: rat
  totalAnalyses :: nat

record AgentOrchestrator =
  agents :: "string \<rightharpoonup> AgentStatus"
  currentAnalysis :: "string \<rightharpoonup> bool"

definition agentDefinitions :: "(string \<times> string) list" where
  "agentDefinitions =
     [(''Recent Matches Analyst'', ''recent_performance''),
      (''Momentum Analyst'', ''recent_performance''),
      (''Clutch Performance Analyst'', ''recent_performance''),
      (''Surface Suitability Analyst'', ''surface_environment''),
      (''Environment Analyst'', ''surface_environment''),
      (''Service Performance Analyst'', ''statistical''),
      (''Return Performance Analyst'', ''statistical''),
      (''Rally & Point Construction Analyst'', ''statistical''),
      (''Pressure Statistics Analyst'', ''statistical''),
      (''Statistical Trend Analyst'', ''statistical''),
      (''Workload & Recovery Analyst'', ''physical_condition''),
      (''Injury Status Analyst'', ''physical_condition''),
      (''Endurance Inference Analyst'', ''physical_condition''),
      (''Playing Style Profiler'', ''matchup''),
      (''Head-to-Head Analyst'', ''matchup''),
      (''Tactical Battle Synthesizer'', ''matchup''),
      (''News Monitor'', ''contextual''),
      (''Data Gaps & Uncertainty Reporter'', ''contextual'')]"

text \<open>
  \<open>initializeAgents\<close>: \<open>clock\<close> gives the \<open>new Date()\<close> and \<open>random\<close> the \<open>Math.random()\<close>
  read for each agent.
\<close>

fun initializeAgents ::
  "(string \<times> string) list \<Rightarrow> (string \<Rightarrow> int) \<Rightarrow> (string \<Rightarrow> rat) \<Rightarrow>
   (string \<rightharpoonup> AgentStatus) \<Rightarrow> (string \<rightharpoonup> AgentStatus)" where
  "initializeAgents [] clock random registry = registry"
| "initializeAgents ((agent_name, agent_type) # rest) clock random registry =
     initializeAgents rest clock random
       (registry(agent_name \<mapsto>
          \<lparr>name = agent_name,
           agentType = agent_type,
           status = Idle,
           lastActivity = clock agent_name,
           accuracy = 85 + random agent_name * 15,
           totalAnalyses = 0\<rparr>))"

definition newAgentOrchestrator :: "(string \<Rightarrow> int) \<Rightarrow> (string \<Rightarrow> rat) \<Rightarrow> AgentOrchestrator" where
  "newAgentOrchestrator clock random =
     \<lparr>agents = initializeAgents agentDefinitions clock random Map.empty,
      currentAnalysis = Map.empty\<rparr>"

definition updateAgentStatus :: "string \<Rightarrow> Status \<Rightarrow> int \<Rightarrow> AgentOrchestrator \<Rightarrow> AgentOrchestrator" where
  "updateAgentStatus agentName' newStatus now this =
     (case agents this agentName' of
        Some agent \<Rightarrow>
          this\<lparr>agents := (agents this)(agentName' \<mapsto>
            agent\<lparr>status := newStatus,
                  lastActivity := now,
                  totalAnalyses := (if newStatus = Processing then totalAnalyses agent + 1
                                    else totalAnalyses agent)\<rparr>)\<rparr>
      | None \<Rightarrow> this)"

text \<open>
  \<open>runAgentAnalysis\<close> suspends at its \<open>await\<close>.  The part before it is
  \<open>runAgentAnalysis_start\<close>; the part after it, given the outcome of \<open>analysisFunction\<close>
  (\<open>Inl\<close> when it throws), is \<open>runAgentAnalysis_settle\<close>, which returns the result or
  rethrows.
\<close>

definition runAgentAnalysis_start :: "string \<Rightarrow> int \<Rightarrow> AgentOrchestrator \<Rightarrow> AgentOrchestrator" where
  "runAgentAnalysis_start agentName' now this = updateAgentStatus agentName' Processing now this"

definition runAgentAnalysis_settle ::
  "string \<Rightarrow> js_error + 'a \<Rightarrow> int \<Rightarrow> AgentOrchestrator \<Rightarrow> (js_error + 'a) \<times> AgentOrchestrator" where
  "runAgentAnalysis_settle agentName' outcome now this =
     (case outcome of
        Inr result \<Rightarrow> (Inr result, updateAgentStatus agentName' Active now this)
      | Inl e \<Rightarrow> (Inl e, updateAgentStatus agentName' Error now this))"

definition runAgentAnalysis ::
  "string \<Rightarrow> js_error + 'a \<Rightarrow> int \<Rightarrow> int \<Rightarrow> AgentOrchestrator \<Rightarrow> (js_error + 'a) \<times> AgentOrchestrator" where
  "runAgentAnalysis agentName' outcome startNow settleNow this =
     runAgentAnalysis_settle agentName' outcome settleNow
       (runAgentAnalysis_start agentName' startNow this)"

text \<open>
  Group 5 of \<open>runAgentAnalyses\<close>: three awaited calls in a row.  The first two task functions
  enter through the outcome of their \<open>try\<close> blocks.  The third is called the way the source
  calls it, with \<open>match\<close>, \<open>player1\<close> and \<open>player2\<close> only.  \<open>clock i\<close> is the \<open>i\<close>-th reading of
  the time.  An error rethrown by \<open>runAgentAnalysis\<close> ends the group.
\<close>

definition runMatchupGroup ::
  "js_error + 's TaskResult \<Rightarrow> js_error + 'h TaskResult \<Rightarrow>
   (string \<Rightarrow> ('s TaskResult, 'h TaskResult) TacticalAnalysisData \<Rightarrow> js_error + string) \<Rightarrow>
   Match \<Rightarrow> Player \<Rightarrow> Player \<Rightarrow> (nat \<Rightarrow> int) \<Rightarrow> AgentOrchestrator \<Rightarrow>
   (js_error + RawResult option list) \<times> AgentOrchestrator" where
  "runMatchupGroup styleTry h2hTry completion match player1 player2 clock this =
     (case runAgentAnalysis ''Playing Style Profiler''
             (Inr (taskFunction AnalyzePlayingStyles styleTry (clock 1) (clock 2)))
             (clock 0) (clock 3) this of
        (Inl e, this1) \<Rightarrow> (Inl e, this1)
      | (Inr style, this1) \<Rightarrow>
          (case runAgentAnalysis ''Head-to-Head Analyst''
                  (Inr (taskFunction AnalyzeHeadToHead h2hTry (clock 5) (clock 6)))
                  (clock 4) (clock 7) this1 of
             (Inl e, this2) \<Rightarrow> (Inl e, this2)
           | (Inr h2h, this2) \<Rightarrow>
               (case runAgentAnalysis ''Tactical Battle Synthesizer''
                       (Inr (analyzeTacticalBattle completion match player1 player2 None None
                               (clock 9) (clock 10)))
                       (clock 8) (clock 11) this2 of
                  (Inl e, this3) \<Rightarrow> (Inl e, this3)
                | (Inr tactical, this3) \<Rightarrow>
                    (Inr [Some (toRaw style), Some (toRaw h2h), Some (toRaw tactical)], this3))))"

text \<open>
  Group 4 of \<open>runAgentAnalyses\<close> builds the array of its four promises before it awaits
  them: each call of \<open>runAgentAnalysis\<close> runs up to its own \<open>await\<close> before the next one
  begins.  \<open>startPhysicalGroup\<close> is that part, with the four names the source passes;
  \<open>clock i\<close> is the \<open>i\<close>-th reading of the time.
\<close>

definition physicalGroupNames :: "string list" where
  "physicalGroupNames =
     [''Workload & Recovery Analyst'',
      ''Recent Match Physical Toll Analyst'',
      ''Injury Status Analyst'',
      ''Endurance Inference Analyst'']"

definition startPhysicalGroup :: "(nat \<Rightarrow> int) \<Rightarrow> AgentOrchestrator \<Rightarrow> AgentOrchestrator" where
  "startPhysicalGroup clock this =
     runAgentAnalysis_start ''Endurance Inference Analyst'' (clock 3)
       (runAgentAnalysis_start ''Injury Status Analyst'' (clock 2)
          (runAgentAnalysis_start ''Recent Match Physical Toll Analyst'' (clock 1)
             (runAgentAnalysis_start ''Workload & Recovery Analyst'' (clock 0) this)))"

text \<open>
  \<open>analyzeMatch\<close> runs without suspension from its entry to the first \<open>await\<close>:
  \<open>analyzeMatch_enter\<close> is that part, the guard and the marker.  The \<open>finally\<close> block of a
  run that passed the guard is \<open>analyzeMatch_finally\<close>.
\<close>

definition analyzeMatch_enter :: "Match \<Rightarrow> AgentOrchestrator \<Rightarrow> js_error + AgentOrchestrator" where
  "analyzeMatch_enter match this =
     (let matchId = match_id match
      in if currentAnalysis this matchId = Some True
         then Inl (JsError ''Match analysis already in progress'')
         else Inr (this\<lparr>currentAnalysis := (currentAnalysis this)(matchId \<mapsto> True)\<rparr>))"

definition analyzeMatch_finally :: "string \<Rightarrow> AgentOrchestrator \<Rightarrow> AgentOrchestrator" where
  "analyzeMatch_finally matchId this =
     this\<lparr>currentAnalysis := (currentAnalysis this)(matchId := None)\<rparr>"

text \<open>
  The event loop interleaves calls of \<open>analyzeMatch\<close> with the suspended parts of the runs
  in flight.  \<open>inFlight\<close> lists the match ids of the runs that passed the guard and have not
  reached their \<open>finally\<close> block; it is the set of pending promises, not a field of the
  program.  A run can only be finished when it is in flight.
\<close>

datatype event =
    CallAnalyzeMatch Match
  | FinishAnalyzeMatch string
  | StartTask string int
  | SettleTask string bool int

record System =
  orchestrator :: AgentOrchestrator
  inFlight :: "string list"

fun step :: "System \<Rightarrow> event \<Rightarrow> System" where
  "step sys (CallAnalyzeMatch match) =
     (case analyzeMatch_enter match (orchestrator sys) of
        Inl e \<Rightarrow> sys
      | Inr this \<Rightarrow> \<lparr>orchestrator = this, inFlight = match_id match # inFlight sys\<rparr>)"
| "step sys (FinishAnalyzeMatch matchId) =
     (if matchId \<in> set (inFlight sys)
      then \<lparr>orchestrator = analyzeMatch_finally matchId (orchestrator sys),
            inFlight = remove1 matchId (inFlight sys)\<rparr>
      else sys)"
| "step sys (StartTask agentName' now) =
     sys\<lparr>orchestrator := runAgentAnalysis_start agentName' now (orchestrator sys)\<rparr>"
| "step sys (SettleTask agentName' ok now) =
     sys\<lparr>orchestrator :=
       snd (runAgentAnalysis_settle agentName'
              (if ok then Inr () else Inl (JsError ''task failed'')) now (orchestrator sys))\<rparr>"

definition startSystem :: "(string \<Rightarrow> int) \<Rightarrow> (string \<Rightarrow> rat) \<Rightarrow> System" where
  "startSystem clock random = \<lparr>orchestrator = newAgentOrchestrator clock random, inFlight = []\<rparr>"

definition runEvents :: "System \<Rightarrow> event list \<Rightarrow> System" where
  "runEvents sys events = foldl step sys events"

text \<open>The names of the tasks an event list has started or settled.\<close>

fun touchedTasks :: "event list \<Rightarrow> string set" where
  "touchedTasks [] = {}"
| "touchedTasks (StartTask agentName' now # rest) = insert agentName' (touchedTasks rest)"
| "touchedTasks (SettleTask agentName' ok now # rest) = insert agentName' (touchedTasks rest)"
| "touchedTasks (e # rest) = touchedTasks rest"

section \<open>The persistence accessor for predictions\<close>

text \<open>
  The columns of the table \<open>predictions\<close>.  The insert payload has the columns without
  defaults; the database adds \<open>id\<close> and \<open>created_at\<close>.  Decimal columns reach the program
  as strings.
\<close>

record InsertPrediction =
  pred_matchId :: string
  pred_predictedWinnerId :: string
  pred_winProbability :: string
  pred_confidenceLevel :: string
  pred_factorAnalysis :: "FactorAnalysis list"
  pred_reasoning :: string
  pred_agentContributions :: analysis_results

record Prediction = InsertPrediction +
  pred_id :: string
  pred_createdAt :: "int option"

text \<open>
  Modelled from the spec: the relational store behind \<open>db\<close> is not part of the source.
  The spec gives relational tables with foreign keys by id, and the schema declares the
  two decimal columns of \<open>predictions\<close> with precision 5 and scale 2.  Such a column
  holds a value rounded to two decimal places, a half rounded away from zero, refuses a
  value whose rounded magnitude is 1000 or more, and returns the value written with
  exactly two decimal places.  \<open>decimal_5_2\<close> is the column applied to the text of the
  payload: the text is read as a plain decimal numeral (an optional minus sign, digits,
  and optionally a point followed by digits); \<open>otherSpelling\<close> stands for what the column
  does with any other spelling.
\<close>

definition digitValue :: "char \<Rightarrow> nat" where
  "digitValue c = length (takeWhile (\<lambda>d. d \<noteq> c) ''0123456789'')"

definition natOfDigits :: "string \<Rightarrow> nat" where
  "natOfDigits ds = foldl (\<lambda>n c. 10 * n + digitValue c) 0 ds"

definition parsePlainDecimal :: "string \<Rightarrow> (bool \<times> string \<times> string) option" where
  "parsePlainDecimal s =
     (let negative = (s \<noteq> [] \<and> hd s = CHR ''-'');
          body = (if negative then tl s else s);
          ip = takeWhile (\<lambda>c. c \<in> set ''0123456789'') body;
          rest = dropWhile (\<lambda>c. c \<in> set ''0123456789'') body
      in if ip = [] then None
         else (case rest of
                 [] \<Rightarrow> Some (negative, ip, [])
               | c # fp \<Rightarrow>
                   if c = CHR ''.'' \<and> fp \<noteq> [] \<and> list_all (\<lambda>d. d \<in> set ''0123456789'') fp
                   then Some (negative, ip, fp)
                   else None))"

text \<open>
  The magnitude of the numeral with integer digits \<open>ip\<close> and fraction digits \<open>fp\<close>, in
  hundredths, a half rounded up.
\<close>

definition hundredths :: "string \<Rightarrow> string \<Rightarrow> nat" where
  "hundredths ip fp =
     (let n = natOfDigits (ip @ fp);
          k = length fp
      in if k \<le> 2 then n * 10 ^ (2 - k)
         else (n + 10 ^ (k - 2) div 2) div 10 ^ (k - 2))"

text \<open>A count of hundredths written with two decimal places; zero has no sign.\<close>

definition showHundredths :: "bool \<Rightarrow> nat \<Rightarrow> string" where
  "showHundredths negative h =
     (if negative \<and> h > 0 then ''-'' else '''') @ show_nat (h div 100) @ ''.'' @
     [''0123456789'' ! (h mod 100 div 10), ''0123456789'' ! (h mod 10)]"

definition decimal_5_2 :: "(string \<Rightarrow> js_error + string) \<Rightarrow> string \<Rightarrow> js_error + string" where
  "decimal_5_2 otherSpelling s =
     (case parsePlainDecimal s of
        None \<Rightarrow> otherSpelling s
      | Some (negative, ip, fp) \<Rightarrow>
          (let h = hundredths ip fp
           in if h \<ge> 100000 then Inl (JsError ''numeric field overflow'')
              else Inr (showHundredths negative h)))"

text \<open>
  Modelled from the spec: the database holds the ids of the rows of \<open>matches\<close> and of
  \<open>players\<close>, to which the foreign keys of \<open>predictions\<close> refer, and the rows of
  \<open>predictions\<close> in the order of their insertion.  \<open>insert ... values ... returning\<close>
  raises and stores nothing when a decimal column refuses its value, when the new primary
  key is taken, or when a foreign key has no row; otherwise it appends the row and returns
  it.  \<open>newId\<close> and \<open>now\<close> are the values of \<open>gen_random_uuid()\<close> and of the default
  timestamp.  A \<open>jsonb\<close> column keeps the length and the order of an array; \<open>jsonb\<close> is
  what it makes of one element.
\<close>

record Database =
  db_matchIds :: "string list"
  db_playerIds :: "string list"
  db_predictions :: "Prediction list"

record DatabaseEngine =
  otherSpelling :: "string \<Rightarrow> js_error + string"
  jsonb :: "FactorAnalysis \<Rightarrow> FactorAnalysis"

definition db_insert_returning ::
  "DatabaseEngine \<Rightarrow> Database \<Rightarrow> InsertPrediction \<Rightarrow> string \<Rightarrow> int \<Rightarrow>
   js_error + Prediction list \<times> Database" where
  "db_insert_returning engine db prediction newId now =
     (case decimal_5_2 (otherSpelling engine) (pred_winProbability prediction) of
        Inl e \<Rightarrow> Inl e
      | Inr probability \<Rightarrow>
          (case decimal_5_2 (otherSpelling engine) (pred_confidenceLevel prediction) of
             Inl e \<Rightarrow> Inl e
           | Inr level \<Rightarrow>
               if newId \<in> set (map pred_id (db_predictions db))
               then Inl (JsError ''duplicate key value violates unique constraint'')
               else if pred_matchId prediction \<notin> set (db_matchIds db)
                       \<or> pred_predictedWinnerId prediction \<notin> set (db_playerIds db)
               then Inl (JsError ''violates foreign key constraint'')
               else
                 (let row = \<lparr>pred_matchId = pred_matchId prediction,
                             pred_predictedWinnerId = pred_predictedWinnerId prediction,
                             pred_winProbability = probability,
                             pred_confidenceLevel = level,
                             pred_factorAnalysis = map (jsonb engine) (pred_factorAnalysis prediction),
                             pred_reasoning = pred_reasoning prediction,
                             pred_agentContributions = pred_agentContributions prediction,
                             pred_id = newId,
                             pred_createdAt = Some now\<rparr>
                  in Inr ([row], db\<lparr>db_predictions := db_predictions db @ [row]\<rparr>))))"

text \<open>
  Modelled from the spec: \<open>select ... where\<close> returns the rows of the table that satisfy
  the condition, in the order in which the table holds them.
\<close>

definition db_select_where :: "Database \<Rightarrow> (Prediction \<Rightarrow> bool) \<Rightarrow> Prediction list" where
  "db_select_where db condition = filter condition (db_predictions db)"

text \<open>\<open>const [x] = rows\<close>: the first row, \<open>undefined\<close> when there is none.\<close>

fun firstRow :: "'a list \<Rightarrow> 'a option" where
  "firstRow [] = None"
| "firstRow (x # rest) = Some x"

definition createPrediction ::
  "DatabaseEngine \<Rightarrow> Database \<Rightarrow> InsertPrediction \<Rightarrow> string \<Rightarrow> int \<Rightarrow>
   js_error + Prediction option \<times> Database" where
  "createPrediction engine db prediction newId now =
     (case db_insert_returning engine db prediction newId now of
        Inl e \<Rightarrow> Inl e
      | Inr (returned, db') \<Rightarrow> Inr (firstRow returned, db'))"

definition getPredictionByMatch :: "Database \<Rightarrow> string \<Rightarrow> Prediction option" where
  "getPredictionByMatch db matchId =
     firstRow (db_select_where db (\<lambda>row. pred_matchId row = matchId))"

section \<open>The notions of the specification\<close>

text \<open>
  The definitions of this section follow the words of the specification, not the code; the
  theorems below compare the code with them.
\<close>

text \<open>The number of factor records whose advantage is one of the given tags.\<close>

fun countFavoring :: "string list \<Rightarrow> FactorAnalysis list \<Rightarrow> nat" where
  "countFavoring tags [] = 0"
| "countFavoring tags (fa # rest) =
     (if advantage fa \<in> set tags then 1 else 0) + countFavoring tags rest"

definition clamp :: "rat \<Rightarrow> rat \<Rightarrow> rat \<Rightarrow> rat" where
  "clamp x lo hi = (if x < lo then lo else if hi < x then hi else x)"




text \<open>
  A marker, written in any letter case, begins the text: \<open>ciPrefix m s\<close> says that \<open>s\<close> starts
  with \<open>m\<close> up to the case of letters.
\<close>

definition ciPrefix :: "string \<Rightarrow> string \<Rightarrow> bool" where
  "ciPrefix m s =
     (length m \<le> length s \<and> map canonicalize (take (length m) s) = map canonicalize m)"

definition digitChars :: "char set" where
  "digitChars = set ''0123456789''"

text \<open>
  A plain decimal numeral: an optional minus sign, the integer digits, and, when there are
  fraction digits, a point and the fraction digits.
\<close>

definition plainDecimal :: "bool \<Rightarrow> string \<Rightarrow> string \<Rightarrow> string" where
  "plainDecimal negative ip fp =
     (if negative then ''-'' else '''') @ ip @ (if fp = [] then '''' else ''.'' @ fp)"

text \<open>
  The magnitude of a numeral rounded to hundredths, a half away from zero, as a count of
  hundredths.
\<close>

definition roundedHundredths :: "string \<Rightarrow> string \<Rightarrow> nat" where
  "roundedHundredths ip fp =
     nat \<lfloor>(of_nat (natOfDigits ip) + of_nat (natOfDigits fp) / 10 ^ length fp) * 100 + (1 / 2 :: rat)\<rfloor>"


text \<open>
  The marker map agrees with the runs in flight, and no match id is in flight twice.
\<close>

definition guardInvariant :: "System \<Rightarrow> bool" where
  "guardInvariant sys =
     (distinct (inFlight sys) \<and>
      (\<forall>matchId. (currentAnalysis (orchestrator sys) matchId = Some True) = (matchId \<in> set (inFlight sys))))"

section \<open>The fallback synthesizer\<close>

lemma countFavoring_filter:
  "countFavoring tags fas = length (filter (\<lambda>fa. advantage fa \<in> set tags) fas)"
  by (induction fas) auto

lemma player1Advantages_count:
  "player1Advantages fas = countFavoring [''player1'', ''slight_player1''] fas"
  by (simp add: player1Advantages_def countFavoring_filter)

lemma player2Advantages_count:
  "player2Advantages fas = countFavoring [''player2'', ''slight_player2''] fas"
  by (simp add: player2Advantages_def countFavoring_filter)

lemma fallback_probability:
  "max (0.5::rat) (min 0.9 (0.5 + of_int \<bar>int a - int b\<bar> * 0.05)) =
   clamp (0.5 + 0.05 * of_nat (if a \<ge> b then a - b else b - a)) 0.5 0.9"
  by (auto simp: clamp_def max_def min_def of_nat_diff abs_if)

text \<open>
  Claim C1.  When the completion call of the synthesizer throws, whatever the error, the
  prediction is the majority vote over the compiled factor records.  With \<open>c1\<close> the number
  of records whose advantage is \<open>player1\<close> or \<open>slight_player1\<close> and \<open>c2\<close> the number whose
  advantage is \<open>player2\<close> or \<open>slight_player2\<close>, the vote names player 1 when \<open>c1 > c2\<close> and
  player 2 when \<open>c2 > c1\<close>, with win probability \<open>clamp(0.5 + 0.05 * |c1 - c2|, 0.5, 0.9)\<close> and
  confidence 0.75.  For three records with advantages \<open>player1\<close>, \<open>player1\<close>, \<open>player2\<close> it
  names player 1 with probability 0.55.
\<close>

theorem fallback_majority_vote:
  "synthesizePrediction match player1 player2 analysisResults (Inl e) =
     fallbackVote player1 player2 (compileFactorAnalyses analysisResults []) analysisResults \<and>
   (let c1 = countFavoring [''player1'', ''slight_player1''] fas;
        c2 = countFavoring [''player2'', ''slight_player2''] fas;
        r = fallbackVote player1 player2 fas analysisResults
    in (c1 > c2 \<longrightarrow> predictedWinnerId r = player_id player1) \<and>
       (c2 > c1 \<longrightarrow> predictedWinnerId r = player_id player2) \<and>
       winProbability r = clamp (0.5 + 0.05 * of_nat (if c1 \<ge> c2 then c1 - c2 else c2 - c1)) 0.5 0.9 \<and>
       confidenceLevel r = 0.75 \<and>
       factorAnalysis r = fas \<and>
       (map advantage fas = [''player1'', ''player1'', ''player2''] \<longrightarrow>
          predictedWinnerId r = player_id player1 \<and> winProbability r = 0.55))"
proof -
  have synth: "synthesizePrediction match player1 player2 analysisResults (Inl e) =
     fallbackVote player1 player2 (compileFactorAnalyses analysisResults []) analysisResults"
    by (simp add: synthesizePrediction_def)
  have ex: "predictedWinnerId (fallbackVote player1 player2 fas analysisResults) = player_id player1 \<and>
            winProbability (fallbackVote player1 player2 fas analysisResults) = 0.55"
    if "map advantage fas = [''player1'', ''player1'', ''player2'']"
  proof -
    from that obtain a b c where fas: "fas = [a, b, c]" and
      adv: "advantage a = ''player1''" "advantage b = ''player1''" "advantage c = ''player2''"
      by (auto simp: map_eq_Cons_conv)
    show ?thesis
      by (simp add: fas adv fallbackVote_def player1Advantages_def player2Advantages_def Let_def)
  qed
  let ?c1 = "countFavoring [''player1'', ''slight_player1''] fas"
  let ?c2 = "countFavoring [''player2'', ''slight_player2''] fas"
  let ?r = "fallbackVote player1 player2 fas analysisResults"
  have "winProbability ?r =
          max 0.5 (min 0.9 (0.5 + of_int \<bar>int ?c1 - int ?c2\<bar> * 0.05))"
    unfolding fallbackVote_def Let_def player1Advantages_count player2Advantages_count by simp
  also have "\<dots> = clamp (0.5 + 0.05 * of_nat (if ?c1 \<ge> ?c2 then ?c1 - ?c2 else ?c2 - ?c1)) 0.5 0.9"
    by (rule fallback_probability)
  finally have prob: "winProbability ?r =
      clamp (0.5 + 0.05 * of_nat (if ?c1 \<ge> ?c2 then ?c1 - ?c2 else ?c2 - ?c1)) 0.5 0.9" .
  have win1: "?c1 > ?c2 \<Longrightarrow> predictedWinnerId ?r = player_id player1"
    by (simp add: fallbackVote_def Let_def player1Advantages_count player2Advantages_count)
  have win2: "?c2 > ?c1 \<Longrightarrow> predictedWinnerId ?r = player_id player2"
    by (simp add: fallbackVote_def Let_def player1Advantages_count player2Advantages_count)
  have conf: "confidenceLevel ?r = 0.75" and fa: "factorAnalysis ?r = fas"
    by (simp_all add: fallbackVote_def Let_def)
  show ?thesis
    unfolding Let_def using synth ex prob win1 win2 conf fa by blast
qed

theorem fallback_majority_vote_witness:
  "(let player1 = \<lparr>player_id = ''id-1'', player_name = ''A''\<rparr>;
        player2 = \<lparr>player_id = ''id-2'', player_name = ''B''\<rparr>;
        f1 = \<lparr>factor = ''f1'', conclusion = ''c1'', advantage = ''player1'', confidence = 0.6, reasoning = ''r1''\<rparr>;
        f2 = \<lparr>factor = ''f2'', conclusion = ''c2'', advantage = ''player2'', confidence = 0.7, reasoning = ''r2''\<rparr>;
        s2 = \<lparr>factor = ''f3'', conclusion = ''c3'', advantage = ''slight_player2'', confidence = 0.8, reasoning = ''r3''\<rparr>;
        r = fallbackVote player1 player2 [f1, f1, f2] [];
        r' = fallbackVote player1 player2 [f2, f1, s2] [];
        r'' = fallbackVote player1 player2 [f1, f1, f1, f1, f1, f1, f1, f1, f1] []
    in countFavoring [''player1'', ''slight_player1''] [f1, f1, f2] >
         countFavoring [''player2'', ''slight_player2''] [f1, f1, f2] \<and>
       map advantage [f1, f1, f2] = [''player1'', ''player1'', ''player2''] \<and>
       predictedWinnerId r = ''id-1'' \<and> winProbability r = 0.55 \<and> confidenceLevel r = 0.75 \<and>
       countFavoring [''player2'', ''slight_player2''] [f2, f1, s2] >
         countFavoring [''player1'', ''slight_player1''] [f2, f1, s2] \<and>
       predictedWinnerId r' = ''id-2'' \<and> winProbability r' = 0.55 \<and> confidenceLevel r' = 0.75 \<and>
       predictedWinnerId r'' = ''id-1'' \<and> winProbability r'' = 0.9 \<and> confidenceLevel r'' = 0.75)"
proof -
  let ?p1 = "\<lparr>player_id = ''id-1'', player_name = ''A''\<rparr>"
  let ?p2 = "\<lparr>player_id = ''id-2'', player_name = ''B''\<rparr>"
  let ?f1 = "\<lparr>factor = ''f1'', conclusion = ''c1'', advantage = ''player1'', confidence = 0.6, reasoning = ''r1''\<rparr>"
  let ?f2 = "\<lparr>factor = ''f2'', conclusion = ''c2'', advantage = ''player2'', confidence = 0.7, reasoning = ''r2''\<rparr>"
  let ?s2 = "\<lparr>factor = ''f3'', conclusion = ''c3'', advantage = ''slight_player2'', confidence = 0.8, reasoning = ''r3''\<rparr>"
  have a: "predictedWinnerId (fallbackVote ?p1 ?p2 [?f1, ?f1, ?f2] []) = ''id-1'' \<and>
           winProbability (fallbackVote ?p1 ?p2 [?f1, ?f1, ?f2] []) = 0.55 \<and>
           confidenceLevel (fallbackVote ?p1 ?p2 [?f1, ?f1, ?f2] []) = 0.75"
    using fallback_majority_vote [of undefined ?p1 ?p2 "[]" undefined "[?f1, ?f1, ?f2]"]
    by (simp add: Let_def)
  have b: "predictedWinnerId (fallbackVote ?p1 ?p2 [?f2, ?f1, ?s2] []) = ''id-2'' \<and>
           winProbability (fallbackVote ?p1 ?p2 [?f2, ?f1, ?s2] []) = 0.55 \<and>
           confidenceLevel (fallbackVote ?p1 ?p2 [?f2, ?f1, ?s2] []) = 0.75"
    using fallback_majority_vote [of undefined ?p1 ?p2 "[]" undefined "[?f2, ?f1, ?s2]"]
    by (simp add: Let_def clamp_def)
  have c: "predictedWinnerId (fallbackVote ?p1 ?p2 [?f1, ?f1, ?f1, ?f1, ?f1, ?f1, ?f1, ?f1, ?f1] []) = ''id-1'' \<and>
           winProbability (fallbackVote ?p1 ?p2 [?f1, ?f1, ?f1, ?f1, ?f1, ?f1, ?f1, ?f1, ?f1] []) = 0.9 \<and>
           confidenceLevel (fallbackVote ?p1 ?p2 [?f1, ?f1, ?f1, ?f1, ?f1, ?f1, ?f1, ?f1, ?f1] []) = 0.75"
    using fallback_majority_vote
      [of undefined ?p1 ?p2 "[]" undefined "[?f1, ?f1, ?f1, ?f1, ?f1, ?f1, ?f1, ?f1, ?f1]"]
    by (simp add: Let_def clamp_def)
  show ?thesis
    unfolding Let_def using a b c by simp
qed

text \<open>
  Claim C4, as stated, at the empty factor list: the fallback divides nothing and leaves
  nothing undefined.  It returns player 2 with probability one half.
\<close>

theorem fallback_empty_counterexample:
  "synthesizePrediction
     \<lparr>match_id = ''m'', player1Id = ''id-1'', player2Id = ''id-2'', surface = ''clay''\<rparr>
     \<lparr>player_id = ''id-1'', player_name = ''A''\<rparr>
     \<lparr>player_id = ''id-2'', player_name = ''B''\<rparr> [] (Inl (JsError ''no completion'')) =
   \<lparr>predictedWinnerId = ''id-2'',
    winProbability = 1 / 2,
    confidenceLevel = 3 / 4,
    factorAnalysis = [],
    synthesisReasoning =
      ''Based on factor analysis: 0 factors favor A, 0 factors favor B. Prediction made using fallback majority vote system.'',
    agentContributions = []\<rparr>"
  by (simp add: synthesizePrediction_def fallbackVote_def player1Advantages_def
      player2Advantages_def Let_def)

text \<open>
  Claim C4, amended.  Whenever the factor-record list compiled from the task outputs is
  empty, both counts are zero, and the fallback returns the id of player 2 as predicted
  winner, win probability 0.5, confidence 0.75 and the empty factor list.
\<close>

theorem fallback_empty_list:
  assumes "compileFactorAnalyses analysisResults [] = []"
  shows "player1Advantages (compileFactorAnalyses analysisResults []) = 0 \<and>
         player2Advantages (compileFactorAnalyses analysisResults []) = 0 \<and>
         predictedWinnerId (synthesizePrediction match player1 player2 analysisResults (Inl e)) =
           player_id player2 \<and>
         winProbability (synthesizePrediction match player1 player2 analysisResults (Inl e)) = 0.5 \<and>
         confidenceLevel (synthesizePrediction match player1 player2 analysisResults (Inl e)) = 0.75 \<and>
         factorAnalysis (synthesizePrediction match player1 player2 analysisResults (Inl e)) = []"
  using assms
  by (simp add: synthesizePrediction_def fallbackVote_def player1Advantages_def
      player2Advantages_def Let_def)

theorem fallback_empty_list_witness:
  "(let ars = [(''statistical'', ResultArray []),
               (''matchup'', ResultArray [None]),
               (''physical'', ResultArray
                  [Some \<lparr>raw_agentName = Some ''a1'', raw_factor = Some ''f1'', raw_conclusion = None,
                          raw_advantage = Some ''player1'', raw_confidence = Some 0.9, raw_reasoning = Some ''r1''\<rparr>]),
               (''surface'', NotArray),
               (''contextual'', ResultArray
                  [Some \<lparr>raw_agentName = Some ''a2'', raw_factor = Some ''f2'', raw_conclusion = Some [],
                          raw_advantage = Some ''player1'', raw_confidence = Some 0.9, raw_reasoning = Some ''r2''\<rparr>]),
               (''recent'', ResultArray [])];
        r = synthesizePrediction \<lparr>match_id = ''m'', player1Id = ''id-1'', player2Id = ''id-2'', surface = ''clay''\<rparr>
              \<lparr>player_id = ''id-1'', player_name = ''A''\<rparr> \<lparr>player_id = ''id-2'', player_name = ''B''\<rparr>
              ars (Inl (JsError ''no completion''))
    in compileFactorAnalyses ars [] = [] \<and>
       predictedWinnerId r = ''id-2'' \<and> winProbability r = 0.5 \<and> confidenceLevel r = 0.75 \<and>
       factorAnalysis r = [])"
proof -
  let ?ars = "[(''statistical'', ResultArray []),
               (''matchup'', ResultArray [None]),
               (''physical'', ResultArray
                  [Some \<lparr>raw_agentName = Some ''a1'', raw_factor = Some ''f1'', raw_conclusion = None,
                          raw_advantage = Some ''player1'', raw_confidence = Some 0.9, raw_reasoning = Some ''r1''\<rparr>]),
               (''surface'', NotArray),
               (''contextual'', ResultArray
                  [Some \<lparr>raw_agentName = Some ''a2'', raw_factor = Some ''f2'', raw_conclusion = Some [],
                          raw_advantage = Some ''player1'', raw_confidence = Some 0.9, raw_reasoning = Some ''r2''\<rparr>]),
               (''recent'', ResultArray [])]"
  have empty: "compileFactorAnalyses ?ars [] = []"
    by simp
  show ?thesis
    unfolding Let_def
    using empty fallback_empty_list [OF empty,
        of "\<lparr>match_id = ''m'', player1Id = ''id-1'', player2Id = ''id-2'', surface = ''clay''\<rparr>"
           "\<lparr>player_id = ''id-1'', player_name = ''A''\<rparr>" "\<lparr>player_id = ''id-2'', player_name = ''B''\<rparr>"
           "JsError ''no completion''"]
    by simp
qed

text \<open>
  Claim C9.  Whenever as many compiled factor records favour player 1 as favour player 2,
  the fallback returns the id of player 2, win probability 0.5 and confidence 0.75.  The
  function is total: it has no error result.
\<close>

theorem fallback_tie_break:
  assumes "countFavoring [''player1'', ''slight_player1''] (compileFactorAnalyses analysisResults []) =
           countFavoring [''player2'', ''slight_player2''] (compileFactorAnalyses analysisResults [])"
  shows "predictedWinnerId (synthesizePrediction match player1 player2 analysisResults (Inl e)) =
           player_id player2 \<and>
         winProbability (synthesizePrediction match player1 player2 analysisResults (Inl e)) = 0.5 \<and>
         confidenceLevel (synthesizePrediction match player1 player2 analysisResults (Inl e)) = 0.75"
  using assms
  by (simp add: synthesizePrediction_def fallbackVote_def Let_def
      player1Advantages_count player2Advantages_count)

theorem fallback_tie_break_witness:
  "(let ars = [(''statistical'', ResultArray
                 [Some \<lparr>raw_agentName = Some ''a1'', raw_factor = Some ''f1'', raw_conclusion = Some ''Advantage Player 1'',
                         raw_advantage = Some ''player1'', raw_confidence = Some 0.6, raw_reasoning = Some ''r1''\<rparr>,
                  Some \<lparr>raw_agentName = Some ''a2'', raw_factor = Some ''f2'', raw_conclusion = Some ''Slight Advantage Player 2'',
                         raw_advantage = Some ''slight_player2'', raw_confidence = Some 0.7, raw_reasoning = Some ''r2''\<rparr>])];
        r = synthesizePrediction \<lparr>match_id = ''m'', player1Id = ''id-1'', player2Id = ''id-2'', surface = ''clay''\<rparr>
              \<lparr>player_id = ''id-1'', player_name = ''A''\<rparr> \<lparr>player_id = ''id-2'', player_name = ''B''\<rparr>
              ars (Inl (JsError ''no completion''))
    in countFavoring [''player1'', ''slight_player1''] (compileFactorAnalyses ars []) = 1 \<and>
       countFavoring [''player2'', ''slight_player2''] (compileFactorAnalyses ars []) = 1 \<and>
       predictedWinnerId r = ''id-2'' \<and> winProbability r = 0.5 \<and> confidenceLevel r = 0.75)"
proof -
  let ?ars = "[(''statistical'', ResultArray
                 [Some \<lparr>raw_agentName = Some ''a1'', raw_factor = Some ''f1'', raw_conclusion = Some ''Advantage Player 1'',
                         raw_advantage = Some ''player1'', raw_confidence = Some 0.6, raw_reasoning = Some ''r1''\<rparr>,
                  Some \<lparr>raw_agentName = Some ''a2'', raw_factor = Some ''f2'', raw_conclusion = Some ''Slight Advantage Player 2'',
                         raw_advantage = Some ''slight_player2'', raw_confidence = Some 0.7, raw_reasoning = Some ''r2''\<rparr>])]"
  have c1: "countFavoring [''player1'', ''slight_player1''] (compileFactorAnalyses ?ars []) = 1"
    by (simp add: or_str_def or_num_def)
  have c2: "countFavoring [''player2'', ''slight_player2''] (compileFactorAnalyses ?ars []) = 1"
    by (simp add: or_str_def or_num_def)
  have tie: "countFavoring [''player1'', ''slight_player1''] (compileFactorAnalyses ?ars []) =
             countFavoring [''player2'', ''slight_player2''] (compileFactorAnalyses ?ars [])"
    using c1 c2 by simp
  show ?thesis
    unfolding Let_def
    using c1 c2 fallback_tie_break [OF tie,
        of "\<lparr>match_id = ''m'', player1Id = ''id-1'', player2Id = ''id-2'', surface = ''clay''\<rparr>"
           "\<lparr>player_id = ''id-1'', player_name = ''A''\<rparr>" "\<lparr>player_id = ''id-2'', player_name = ''B''\<rparr>"
           "JsError ''no completion''"]
    by simp
qed

section \<open>Compiling the task outputs\<close>











section \<open>The task functions\<close>

lemma catchRecord_advantage: "advantage (catchRecord t elapsed :: 'd TaskResult) = ''none''"
  by (cases t) simp_all

lemma catchRecord_confidence:
  "confidence (catchRecord t elapsed :: 'd TaskResult) =
     (if t \<in> {AnalyzeEnvironment, AnalyzeInjuryFitnessStatus, AnalyzeNewsAndContext} then 0.5
      else if t = ReportDataGapsAndLimitations then 0.3
      else 0.0)"
  by (cases t) simp_all

text \<open>
  Claim C3, as stated, at the Injury and Fitness Status Monitor with a completion client that
  always fails: the record has advantage \<open>none\<close>, but its confidence is 0.5, not 0.0.
\<close>

theorem task_error_confidence_counterexample:
  "(let r = analyzeInjuryFitnessStatus (\<lambda>factor' data. Inl (JsError ''completion failed''))
              \<lparr>match_id = ''m'', player1Id = ''id-1'', player2Id = ''id-2'', surface = ''clay''\<rparr>
              \<lparr>player_id = ''id-1'', player_name = ''A''\<rparr>
              \<lparr>player_id = ''id-2'', player_name = ''B''\<rparr> 0 0 100 105
    in agentName r = ''Injury & Fitness Status Monitor'' \<and>
       conclusion r = ''No Known Issues'' \<and>
       advantage r = ''none'' \<and>
       confidence r = 1 / 2 \<and>
       confidence r \<noteq> 0)"
  by (simp add: analyzeInjuryFitnessStatus_def analyzeInjuryFitnessStatus_try_def
      taskFunction_def Let_def)

text \<open>
  Claim C3, amended.  A task function returns a record whatever its \<open>try\<close> block does: the
  record of the \<open>try\<close> block when that returns, the record of its \<open>catch\<close> block when
  anything inside throws, a failure of the completion client included.  The \<open>catch\<close>
  record has advantage \<open>none\<close>; its confidence is 0.5 for the Environment Analyst, the
  Injury and Fitness Status Monitor and the News Monitor, 0.3 for the Data Gaps and
  Uncertainty Reporter, and 0.0 for the other fifteen tasks.
\<close>

theorem task_function_catch:
  "taskFunction t (Inr result) startTime now = result \<and>
   taskFunction t (Inl e) startTime now = (catchRecord t (now - startTime) :: 'd TaskResult) \<and>
   advantage (taskFunction t (Inl e) startTime now :: 'd TaskResult) = ''none'' \<and>
   confidence (taskFunction t (Inl e) startTime now :: 'd TaskResult) =
     (if t \<in> {AnalyzeEnvironment, AnalyzeInjuryFitnessStatus, AnalyzeNewsAndContext} then 0.5
      else if t = ReportDataGapsAndLimitations then 0.3
      else 0.0) \<and>
   advantage (analyzeServePerformance (\<lambda>factor' data. Inl e) match player1 player2
                random1 random2 startTime now) = ''none'' \<and>
   confidence (analyzeServePerformance (\<lambda>factor' data. Inl e) match player1 player2
                 random1 random2 startTime now) = 0.0 \<and>
   advantage (analyzeTacticalBattle (\<lambda>factor' data. Inl e) match player1 player2
                styleAnalysis h2hAnalysis startTime now) = ''none'' \<and>
   confidence (analyzeTacticalBattle (\<lambda>factor' data. Inl e) match player1 player2
                 styleAnalysis h2hAnalysis startTime now) = 0.0"
proof -
  have a: "taskFunction t (Inl e) startTime now = (catchRecord t (now - startTime) :: 'd TaskResult)"
    by (simp add: taskFunction_def)
  have b: "analyzeServePerformance (\<lambda>factor' data. Inl e) match player1 player2
             random1 random2 startTime now = catchRecord AnalyzeServePerformance (now - startTime)"
    by (simp add: analyzeServePerformance_def analyzeServePerformance_try_def taskFunction_def Let_def)
  have c: "analyzeTacticalBattle (\<lambda>factor' data. Inl e) match player1 player2
             styleAnalysis h2hAnalysis startTime now = catchRecord AnalyzeTacticalBattle (now - startTime)"
    by (simp add: analyzeTacticalBattle_def analyzeTacticalBattle_try_def taskFunction_def Let_def)
  show ?thesis
    unfolding a b c
    by (simp add: taskFunction_def catchRecord_advantage catchRecord_confidence
        del: catchRecord.simps)
qed

section \<open>The persistence accessor\<close>

text \<open>
  The decimal column computes the rounding of the specification: the digits of the numeral,
  read as a count of hundredths by integer arithmetic, are the value rounded to hundredths.
\<close>

lemma foldl_digits:
  "foldl (\<lambda>n c. 10 * n + digitValue c) a ds =
   a * 10 ^ length ds + foldl (\<lambda>n c. 10 * n + digitValue c) 0 ds"
proof (induction ds arbitrary: a)
  case Nil
  then show ?case by simp
next
  case (Cons d ds)
  have "foldl (\<lambda>n c. 10 * n + digitValue c) a (d # ds) =
        foldl (\<lambda>n c. 10 * n + digitValue c) (10 * a + digitValue d) ds" by simp
  also have "\<dots> = (10 * a + digitValue d) * 10 ^ length ds +
                    foldl (\<lambda>n c. 10 * n + digitValue c) 0 ds"
    by (rule Cons.IH)
  also have "\<dots> = a * 10 ^ length (d # ds) +
                    (digitValue d * 10 ^ length ds + foldl (\<lambda>n c. 10 * n + digitValue c) 0 ds)"
    by (simp add: algebra_simps)
  also have "digitValue d * 10 ^ length ds + foldl (\<lambda>n c. 10 * n + digitValue c) 0 ds =
             foldl (\<lambda>n c. 10 * n + digitValue c) 0 (d # ds)"
    using Cons.IH [of "digitValue d"] by simp
  finally show ?case .
qed

lemma natOfDigits_append:
  "natOfDigits (ip @ fp) = natOfDigits ip * 10 ^ length fp + natOfDigits fp"
  unfolding natOfDigits_def foldl_append by (rule foldl_digits)

lemma round_whole: "\<lfloor>(of_nat m :: rat) + 1 / 2\<rfloor> = int m"
  by (rule floor_unique) simp_all

lemma round_half:
  assumes "m = 2 * m'" and "0 < m'"
  shows "\<lfloor>(of_nat n :: rat) / of_nat m + 1 / 2\<rfloor> = int ((n + m') div m)"
proof -
  have "(of_nat n :: rat) / of_nat m + 1 / 2 = of_nat (n + m') / of_nat m"
    using assms by (simp add: field_simps)
  then show ?thesis by (simp only: floor_divide_of_nat_eq)
qed

lemma hundredths_rounded: "hundredths ip fp = roundedHundredths ip fp"
proof -
  let ?k = "length fp"
  let ?n = "natOfDigits (ip @ fp)"
  have val: "(of_nat (natOfDigits ip) + of_nat (natOfDigits fp) / 10 ^ ?k :: rat) =
               of_nat ?n / 10 ^ ?k"
    by (simp add: natOfDigits_append field_simps)
  show ?thesis
  proof (cases "?k \<le> 2")
    case True
    then have "(100 :: rat) = 10 ^ ?k * 10 ^ (2 - ?k)"
      by (simp add: power_add [symmetric])
    moreover have "(of_nat ?n / 10 ^ ?k :: rat) * (10 ^ ?k * 10 ^ (2 - ?k)) =
                   of_nat (?n * 10 ^ (2 - ?k))"
      by simp
    ultimately have "(of_nat ?n / 10 ^ ?k :: rat) * 100 = of_nat (?n * 10 ^ (2 - ?k))"
      by (simp only:)
    then have "roundedHundredths ip fp = ?n * 10 ^ (2 - ?k)"
      unfolding roundedHundredths_def val by (simp only: round_whole nat_int)
    with True show ?thesis by (simp add: hundredths_def Let_def)
  next
    case False
    then obtain j where k: "?k = Suc (Suc (Suc j))"
      by (metis Suc_le_eq not_less_eq_eq numeral_2_eq_2 not0_implies_Suc le0 less_Suc_eq_le)
    let ?m = "(10 :: nat) ^ (?k - 2)"
    have m: "?m = 2 * (?m div 2)" and pos: "0 < ?m div 2"
      using k by simp_all
    have "(100 :: rat) * 10 ^ (?k - 2) = 10 ^ ?k"
      using k by simp
    moreover have "(of_nat ?n / ((100 :: rat) * 10 ^ (?k - 2))) * 100 = of_nat ?n / of_nat ?m"
      by simp
    ultimately have "(of_nat ?n / 10 ^ ?k :: rat) * 100 = of_nat ?n / of_nat ?m"
      by (simp only:)
    then have "roundedHundredths ip fp = (?n + ?m div 2) div ?m"
      unfolding roundedHundredths_def val
      by (simp only: round_half [OF m pos] nat_int)
    with False show ?thesis by (simp add: hundredths_def Let_def)
  qed
qed


text \<open>The column reads every plain decimal numeral as its sign and its two digit strings.\<close>

lemma point_minus_not_digit: "CHR ''.'' \<notin> digitChars" "CHR ''-'' \<notin> digitChars"
  by (simp_all add: digitChars_def)

lemma parsePlainDecimal_general:
  assumes ip: "ip \<noteq> []" "set ip \<subseteq> digitChars"
    and tail: "takeWhile (\<lambda>c. c \<in> digitChars) tail = []"
  shows "parsePlainDecimal ((if negative then ''-'' else []) @ ip @ tail) =
           (case tail of
              [] \<Rightarrow> Some (negative, ip, [])
            | c # fp \<Rightarrow>
                if c = CHR ''.'' \<and> fp \<noteq> [] \<and> list_all (\<lambda>d. d \<in> digitChars) fp
                then Some (negative, ip, fp)
                else None)"
proof -
  let ?D = "\<lambda>c. c \<in> digitChars"
  have allip: "\<forall>c \<in> set ip. ?D c" using ip(2) by blast
  have "dropWhile ?D tail = takeWhile ?D tail @ dropWhile ?D tail" using tail by simp
  then have dw_tail: "dropWhile ?D tail = tail" by (simp only: takeWhile_dropWhile_id)
  have tw: "takeWhile ?D (ip @ tail) = ip"
    using takeWhile_append2 [of ip ?D tail] allip tail by simp
  have dw: "dropWhile ?D (ip @ tail) = tail"
    using dropWhile_append2 [of ip ?D tail] allip dw_tail by simp
  have "hd ip \<in> digitChars" using ip by (cases ip) auto
  then have "hd ip \<noteq> CHR ''-''" using point_minus_not_digit(2) by auto
  then have hd: "hd (ip @ tail) \<noteq> CHR ''-''" using ip(1) by simp
  have body: "parsePlainDecimal s =
      (let negative = (s \<noteq> [] \<and> hd s = CHR ''-'');
           body = (if negative then tl s else s);
           ip = takeWhile ?D body;
           rest = dropWhile ?D body
       in if ip = [] then None
          else (case rest of
                  [] \<Rightarrow> Some (negative, ip, [])
                | c # fp \<Rightarrow>
                    if c = CHR ''.'' \<and> fp \<noteq> [] \<and> list_all ?D fp
                    then Some (negative, ip, fp)
                    else None))" for s
    unfolding parsePlainDecimal_def digitChars_def ..
  show ?thesis
  proof (cases negative)
    case True
    have c1: "(CHR ''-'' # (ip @ tail) \<noteq> [] \<and> hd (CHR ''-'' # (ip @ tail)) = CHR ''-'') = True"
      and c2: "tl (CHR ''-'' # (ip @ tail)) = ip @ tail"
      by simp_all
    have "parsePlainDecimal (CHR ''-'' # (ip @ tail)) =
           (case tail of
              [] \<Rightarrow> Some (True, ip, [])
            | c # fp \<Rightarrow>
                if c = CHR ''.'' \<and> fp \<noteq> [] \<and> list_all ?D fp
                then Some (True, ip, fp)
                else None)"
      unfolding body Let_def c1 if_True c2 tw dw using ip(1) by simp
    with True show ?thesis by (cases tail) simp_all
  next
    case False
    have neg: "(ip @ tail \<noteq> [] \<and> hd (ip @ tail) = CHR ''-'') = False"
      using hd by blast
    have "parsePlainDecimal (ip @ tail) =
           (case tail of
              [] \<Rightarrow> Some (False, ip, [])
            | c # fp \<Rightarrow>
                if c = CHR ''.'' \<and> fp \<noteq> [] \<and> list_all ?D fp
                then Some (False, ip, fp)
                else None)"
      unfolding body Let_def neg if_False tw dw using ip(1) by simp
    with False show ?thesis by (cases tail) simp_all
  qed
qed

lemma parsePlainDecimal_plain:
  assumes ip: "ip \<noteq> []" "set ip \<subseteq> digitChars" and fp: "set fp \<subseteq> digitChars"
  shows "parsePlainDecimal (plainDecimal negative ip fp) = Some (negative, ip, fp)"
proof (cases "fp = []")
  case True
  have "takeWhile (\<lambda>c. c \<in> digitChars) [] = []" by simp
  from parsePlainDecimal_general [OF ip this, of negative] True
  show ?thesis by (simp add: plainDecimal_def)
next
  case False
  have fpall: "list_all (\<lambda>d. d \<in> digitChars) fp" using fp by (auto simp: list_all_iff)
  have "takeWhile (\<lambda>c. c \<in> digitChars) (CHR ''.'' # fp) = []"
    using point_minus_not_digit(1) by simp
  from parsePlainDecimal_general [OF ip this, of negative] False fpall
  show ?thesis by (simp add: plainDecimal_def)
qed

lemma decimal_5_2_plain:
  assumes "ip \<noteq> []" "set ip \<subseteq> digitChars" "set fp \<subseteq> digitChars"
  shows "decimal_5_2 other (plainDecimal negative ip fp) =
           (if roundedHundredths ip fp \<ge> 100000 then Inl (JsError ''numeric field overflow'')
            else Inr (showHundredths negative (roundedHundredths ip fp)))"
  by (simp add: decimal_5_2_def parsePlainDecimal_plain [OF assms] hundredths_rounded Let_def)

text \<open>
  What the column makes of some payloads: \<open>0.5\<close> comes back as \<open>0.50\<close>, the seventeen-digit
  spelling of a sum of binary fractions as \<open>0.85\<close>, and 1000 is refused.
\<close>

lemma decimal_5_2_half: "decimal_5_2 other ''0.5'' = Inr ''0.50''"
  by (simp add: decimal_5_2_def parsePlainDecimal_def hundredths_def natOfDigits_def
      digitValue_def showHundredths_def Let_def)

lemma decimal_5_2_075: "decimal_5_2 other ''0.75'' = Inr ''0.75''"
  by (simp add: decimal_5_2_def parsePlainDecimal_def hundredths_def natOfDigits_def
      digitValue_def showHundredths_def Let_def)

lemma decimal_5_2_long: "decimal_5_2 other ''0.8500000000000001'' = Inr ''0.85''"
  by (simp add: decimal_5_2_def parsePlainDecimal_def hundredths_def natOfDigits_def
      digitValue_def showHundredths_def Let_def)

lemma decimal_5_2_overflow:
  "decimal_5_2 other ''1000'' = Inl (JsError ''numeric field overflow'')"
  by (simp add: decimal_5_2_def parsePlainDecimal_def hundredths_def natOfDigits_def
      digitValue_def showHundredths_def Let_def)

text \<open>
  \<open>createPrediction\<close> stores a row only when both decimal columns accept their values and
  both foreign keys have their rows; it raises when the column refuses the win probability
  or a foreign key has no row.  \<open>getPredictionByMatch\<close> returns only rows of the match id
  asked for.
\<close>

lemma createPrediction_Inr:
  assumes "createPrediction engine db prediction newId now = Inr (created, db')"
  shows "\<exists>probability level.
           decimal_5_2 (otherSpelling engine) (pred_winProbability prediction) = Inr probability \<and>
           decimal_5_2 (otherSpelling engine) (pred_confidenceLevel prediction) = Inr level \<and>
           pred_matchId prediction \<in> set (db_matchIds db) \<and>
           pred_predictedWinnerId prediction \<in> set (db_playerIds db) \<and>
           created = Some
             \<lparr>pred_matchId = pred_matchId prediction,
              pred_predictedWinnerId = pred_predictedWinnerId prediction,
              pred_winProbability = probability,
              pred_confidenceLevel = level,
              pred_factorAnalysis = map (jsonb engine) (pred_factorAnalysis prediction),
              pred_reasoning = pred_reasoning prediction,
              pred_agentContributions = pred_agentContributions prediction,
              pred_id = newId,
              pred_createdAt = Some now\<rparr> \<and>
           db_predictions db' = db_predictions db @ [the created]"
  using assms
  by (auto simp: createPrediction_def db_insert_returning_def Let_def
      split: if_splits sum.splits)

lemma createPrediction_raises:
  "pred_matchId prediction \<notin> set (db_matchIds db) \<or>
   pred_predictedWinnerId prediction \<notin> set (db_playerIds db) \<or>
   decimal_5_2 (otherSpelling engine) (pred_winProbability prediction) = Inl e \<Longrightarrow>
   \<exists>e'. createPrediction engine db prediction newId now = Inl e'"
  by (auto simp: createPrediction_def db_insert_returning_def Let_def split: sum.splits)

lemma createPrediction_overflow:
  "createPrediction engine db (prediction\<lparr>pred_winProbability := ''1000''\<rparr>) newId now =
   Inl (JsError ''numeric field overflow'')"
  by (simp add: createPrediction_def db_insert_returning_def decimal_5_2_overflow)

lemma getPredictionByMatch_matchId:
  "getPredictionByMatch db matchId = Some row \<Longrightarrow> pred_matchId row = matchId"
proof -
  assume a: "getPredictionByMatch db matchId = Some row"
  then obtain rest where
    "filter (\<lambda>row. pred_matchId row = matchId) (db_predictions db) = row # rest"
    by (cases "filter (\<lambda>row. pred_matchId row = matchId) (db_predictions db)")
       (simp_all add: getPredictionByMatch_def db_select_where_def)
  then have "row \<in> set (filter (\<lambda>row. pred_matchId row = matchId) (db_predictions db))"
    by simp
  then show ?thesis by simp
qed

text \<open>
  Claim C7, as stated.  The record fetched does not always have the win probability of the
  prediction that was stored: the column holds two decimal places.  The win probability
  \<open>0.8500000000000001\<close>, stored for a match id with no prior row, is fetched as \<open>0.85\<close>.
\<close>

theorem prediction_round_trip_counterexample:
  "(let db = \<lparr>db_matchIds = [''m1''], db_playerIds = [''id-2''], db_predictions = []\<rparr>;
        prediction = \<lparr>pred_matchId = ''m1'', pred_predictedWinnerId = ''id-2'',
                       pred_winProbability = ''0.8500000000000001'', pred_confidenceLevel = ''0.75'',
                       pred_factorAnalysis = [], pred_reasoning = ''r'', pred_agentContributions = []\<rparr>;
        engine = \<lparr>otherSpelling = (\<lambda>s. Inl (JsError ''invalid input syntax for type numeric'')),
                   jsonb = (\<lambda>fa. fa)\<rparr>
    in \<exists>stored db' fetched.
         createPrediction engine db prediction ''row-1'' 2 = Inr (Some stored, db') \<and>
         getPredictionByMatch db' ''m1'' = Some fetched \<and>
         pred_winProbability fetched = ''0.85'' \<and>
         pred_winProbability fetched \<noteq> pred_winProbability prediction)"
  by (simp add: Let_def createPrediction_def db_insert_returning_def getPredictionByMatch_def
      db_select_where_def decimal_5_2_long decimal_5_2_075)

text \<open>
  Claim C7, amended.  When \<open>createPrediction\<close> stores a prediction for a match id that
  has no row yet, \<open>getPredictionByMatch\<close> with that match id returns the stored row; with
  any other match id it returns what it returned before, and whatever it returns has the
  match id asked for.  The stored row has the match id and the predicted winner id of
  the payload and a factor list of the same length.  Its win probability is what the
  decimal column makes of the payload's: for a payload written as a plain decimal numeral,
  the value rounded to two decimal places, a half away from zero, written with two
  decimal places, and of magnitude below 1000.
\<close>

theorem prediction_round_trip:
  assumes "\<forall>row \<in> set (db_predictions db). pred_matchId row \<noteq> pred_matchId prediction"
    and "createPrediction engine db prediction newId now = Inr (created, db')"
  shows "\<exists>stored.
           created = Some stored \<and>
           getPredictionByMatch db' (pred_matchId prediction) = Some stored \<and>
           (\<forall>matchId. matchId \<noteq> pred_matchId prediction \<longrightarrow>
              getPredictionByMatch db' matchId = getPredictionByMatch db matchId) \<and>
           (\<forall>matchId row. getPredictionByMatch db' matchId = Some row \<longrightarrow>
              pred_matchId row = matchId) \<and>
           pred_matchId stored = pred_matchId prediction \<and>
           pred_predictedWinnerId stored = pred_predictedWinnerId prediction \<and>
           length (pred_factorAnalysis stored) = length (pred_factorAnalysis prediction) \<and>
           decimal_5_2 (otherSpelling engine) (pred_winProbability prediction) =
             Inr (pred_winProbability stored) \<and>
           (\<forall>negative ip fp.
              pred_winProbability prediction = plainDecimal negative ip fp \<and>
              ip \<noteq> [] \<and> set ip \<subseteq> digitChars \<and> set fp \<subseteq> digitChars \<longrightarrow>
              roundedHundredths ip fp < 100000 \<and>
              pred_winProbability stored = showHundredths negative (roundedHundredths ip fp))"
proof -
  from createPrediction_Inr [OF assms(2)] obtain probability level where
    p: "decimal_5_2 (otherSpelling engine) (pred_winProbability prediction) = Inr probability"
    and c: "created = Some
             \<lparr>pred_matchId = pred_matchId prediction,
              pred_predictedWinnerId = pred_predictedWinnerId prediction,
              pred_winProbability = probability,
              pred_confidenceLevel = level,
              pred_factorAnalysis = map (jsonb engine) (pred_factorAnalysis prediction),
              pred_reasoning = pred_reasoning prediction,
              pred_agentContributions = pred_agentContributions prediction,
              pred_id = newId,
              pred_createdAt = Some now\<rparr>"
    and d: "db_predictions db' = db_predictions db @ [the created]"
    by blast
  let ?stored = "the created"
  have none: "filter (\<lambda>row. pred_matchId row = pred_matchId prediction) (db_predictions db) = []"
    using assms(1) by (simp add: filter_empty_conv)
  have fetched: "getPredictionByMatch db' (pred_matchId prediction) = Some ?stored"
    by (simp add: getPredictionByMatch_def db_select_where_def d none c)
  have others: "getPredictionByMatch db' matchId = getPredictionByMatch db matchId"
    if "matchId \<noteq> pred_matchId prediction" for matchId
    using that by (auto simp: getPredictionByMatch_def db_select_where_def d c)
  have asked: "pred_matchId row = matchId"
    if "getPredictionByMatch db' matchId = Some row" for matchId row
    using that by (rule getPredictionByMatch_matchId)
  have prob: "roundedHundredths ip fp < 100000 \<and>
              pred_winProbability ?stored = showHundredths negative (roundedHundredths ip fp)"
    if "pred_winProbability prediction = plainDecimal negative ip fp \<and>
        ip \<noteq> [] \<and> set ip \<subseteq> digitChars \<and> set fp \<subseteq> digitChars" for negative ip fp
  proof -
    from that have "decimal_5_2 (otherSpelling engine) (pred_winProbability prediction) =
           (if roundedHundredths ip fp \<ge> 100000 then Inl (JsError ''numeric field overflow'')
            else Inr (showHundredths negative (roundedHundredths ip fp)))"
      by (simp add: decimal_5_2_plain)
    with p show ?thesis by (auto simp: c split: if_splits)
  qed
  have fields: "pred_matchId ?stored = pred_matchId prediction"
    "pred_predictedWinnerId ?stored = pred_predictedWinnerId prediction"
    "length (pred_factorAnalysis ?stored) = length (pred_factorAnalysis prediction)"
    "decimal_5_2 (otherSpelling engine) (pred_winProbability prediction) =
       Inr (pred_winProbability ?stored)"
    by (simp_all add: c p)
  have "created = Some ?stored" by (simp add: c)
  with fetched others asked prob fields show ?thesis by blast
qed

theorem prediction_round_trip_witness:
  "(let other = \<lparr>pred_matchId = ''m0'', pred_predictedWinnerId = ''id-9'', pred_winProbability = ''0.60'',
                  pred_confidenceLevel = ''0.75'', pred_factorAnalysis = [], pred_reasoning = ''r0'',
                  pred_agentContributions = [], pred_id = ''row-0'', pred_createdAt = Some 1\<rparr>;
        db = \<lparr>db_matchIds = [''m0'', ''m1'', ''m2''], db_playerIds = [''id-2'', ''id-9''],
               db_predictions = [other]\<rparr>;
        prediction = \<lparr>pred_matchId = ''m1'', pred_predictedWinnerId = ''id-2'', pred_winProbability = ''0.5'',
                       pred_confidenceLevel = ''0.75'',
                       pred_factorAnalysis = [\<lparr>factor = ''f1'', conclusion = ''c1'', advantage = ''player2'',
                                                confidence = 0.6, reasoning = ''r1''\<rparr>],
                       pred_reasoning = ''r'', pred_agentContributions = []\<rparr>;
        engine = \<lparr>otherSpelling = (\<lambda>s. Inl (JsError ''invalid input syntax for type numeric'')),
                   jsonb = (\<lambda>fa. fa)\<rparr>
    in pred_matchId other \<noteq> pred_matchId prediction \<and>
       pred_winProbability prediction = plainDecimal False ''0'' ''5'' \<and>
       (\<exists>stored db'.
          createPrediction engine db prediction ''row-1'' 2 = Inr (Some stored, db') \<and>
          getPredictionByMatch db' ''m1'' = Some stored \<and>
          getPredictionByMatch db' ''m0'' = Some other \<and>
          getPredictionByMatch db' ''m2'' = None \<and>
          pred_predictedWinnerId stored = ''id-2'' \<and>
          pred_winProbability stored = showHundredths False (roundedHundredths ''0'' ''5'') \<and>
          pred_winProbability stored = ''0.50'' \<and>
          length (pred_factorAnalysis stored) = 1))"
proof -
  let ?other = "\<lparr>pred_matchId = ''m0'', pred_predictedWinnerId = ''id-9'', pred_winProbability = ''0.60'',
                  pred_confidenceLevel = ''0.75'', pred_factorAnalysis = [], pred_reasoning = ''r0'',
                  pred_agentContributions = [], pred_id = ''row-0'', pred_createdAt = Some 1\<rparr>"
  let ?db = "\<lparr>db_matchIds = [''m0'', ''m1'', ''m2''], db_playerIds = [''id-2'', ''id-9''],
               db_predictions = [?other]\<rparr>"
  let ?prediction = "\<lparr>pred_matchId = ''m1'', pred_predictedWinnerId = ''id-2'', pred_winProbability = ''0.5'',
                       pred_confidenceLevel = ''0.75'',
                       pred_factorAnalysis = [\<lparr>factor = ''f1'', conclusion = ''c1'', advantage = ''player2'',
                                                confidence = 0.6, reasoning = ''r1''\<rparr>],
                       pred_reasoning = ''r'', pred_agentContributions = []\<rparr>"
  let ?engine = "\<lparr>otherSpelling = (\<lambda>s. Inl (JsError ''invalid input syntax for type numeric'')),
                   jsonb = (\<lambda>fa. fa)\<rparr>"
  have h: "\<forall>row \<in> set (db_predictions ?db). pred_matchId row \<noteq> pred_matchId ?prediction"
    by simp
  obtain created db' where
    c: "createPrediction ?engine ?db ?prediction ''row-1'' 2 = Inr (created, db')"
    by (simp add: createPrediction_def db_insert_returning_def decimal_5_2_half decimal_5_2_075
        Let_def)
  have plain: "pred_winProbability ?prediction = plainDecimal False ''0'' ''5'' \<and>
               ''0'' \<noteq> [] \<and> set ''0'' \<subseteq> digitChars \<and> set ''5'' \<subseteq> digitChars"
    by (simp add: plainDecimal_def digitChars_def)
  from prediction_round_trip [OF h c] obtain stored where s:
    "created = Some stored"
    "getPredictionByMatch db' (pred_matchId ?prediction) = Some stored"
    "\<forall>matchId. matchId \<noteq> pred_matchId ?prediction \<longrightarrow>
        getPredictionByMatch db' matchId = getPredictionByMatch ?db matchId"
    "\<forall>matchId row. getPredictionByMatch db' matchId = Some row \<longrightarrow> pred_matchId row = matchId"
    "pred_matchId stored = pred_matchId ?prediction"
    "pred_predictedWinnerId stored = pred_predictedWinnerId ?prediction"
    "length (pred_factorAnalysis stored) = length (pred_factorAnalysis ?prediction)"
    "decimal_5_2 (otherSpelling ?engine) (pred_winProbability ?prediction) =
       Inr (pred_winProbability stored)"
    "\<forall>negative ip fp.
        pred_winProbability ?prediction = plainDecimal negative ip fp \<and>
        ip \<noteq> [] \<and> set ip \<subseteq> digitChars \<and> set fp \<subseteq> digitChars \<longrightarrow>
        roundedHundredths ip fp < 100000 \<and>
        pred_winProbability stored = showHundredths negative (roundedHundredths ip fp)"
    by blast
  from s(9) plain have p: "pred_winProbability stored = showHundredths False (roundedHundredths ''0'' ''5'')"
    by blast
  have r: "roundedHundredths ''0'' ''5'' = 50"
    by (simp add: hundredths_rounded [symmetric] hundredths_def natOfDigits_def digitValue_def)
  have p': "pred_winProbability stored = ''0.50''"
    by (simp add: p r showHundredths_def)
  have m0: "getPredictionByMatch db' ''m0'' = Some ?other"
    using s(3) by (simp add: getPredictionByMatch_def db_select_where_def)
  have m2: "getPredictionByMatch db' ''m2'' = None"
    using s(3) by (simp add: getPredictionByMatch_def db_select_where_def)
  have m1: "getPredictionByMatch db' ''m1'' = Some stored"
    using s(2) by simp
  have w: "pred_predictedWinnerId stored = ''id-2''" using s(6) by simp
  have l: "length (pred_factorAnalysis stored) = 1" using s(7) by simp
  have c': "createPrediction ?engine ?db ?prediction ''row-1'' 2 = Inr (Some stored, db')"
    using c s(1) by simp
  have pl: "pred_winProbability ?prediction = plainDecimal False ''0'' ''5''"
    using plain by blast
  have "\<exists>stored db'.
          createPrediction ?engine ?db ?prediction ''row-1'' 2 = Inr (Some stored, db') \<and>
          getPredictionByMatch db' ''m1'' = Some stored \<and>
          getPredictionByMatch db' ''m0'' = Some ?other \<and>
          getPredictionByMatch db' ''m2'' = None \<and>
          pred_predictedWinnerId stored = ''id-2'' \<and>
          pred_winProbability stored = showHundredths False (roundedHundredths ''0'' ''5'') \<and>
          pred_winProbability stored = ''0.50'' \<and>
          length (pred_factorAnalysis stored) = 1"
    using c' m1 m0 m2 w p p' l by blast
  moreover have "pred_matchId ?other \<noteq> pred_matchId ?prediction" by simp
  ultimately show ?thesis
    unfolding Let_def using pl by blast
qed

section \<open>The match-up group\<close>

lemma runAgentAnalysis_Inr:
  "fst (runAgentAnalysis agentName' (Inr result) startNow settleNow this) = Inr result"
  by (simp add: runAgentAnalysis_def runAgentAnalysis_settle_def)

lemma runMatchupGroup_results:
  "fst (runMatchupGroup styleTry h2hTry completion match player1 player2 clock this) =
   Inr [Some (toRaw (taskFunction AnalyzePlayingStyles styleTry (clock 1) (clock 2))),
        Some (toRaw (taskFunction AnalyzeHeadToHead h2hTry (clock 5) (clock 6))),
        Some (toRaw (analyzeTacticalBattle completion match player1 player2 None None
                       (clock 9) (clock 10)))]"
  by (simp add: runMatchupGroup_def runAgentAnalysis_def runAgentAnalysis_settle_def)

lemma tactical_context_of_group:
  "styleContext (tacticalAnalysisData match player1 player2 None None) = None \<and>
   h2hContext (tacticalAnalysisData match player1 player2 None None) = None"
  by (simp add: tacticalAnalysisData_def Let_def)

text \<open>
  Claim C5, evaluated.  The three tasks of the match-up group run one after the other, but
  the Tactical Battle Synthesizer is called without the two earlier results: its data carry
  no style context and no head-to-head context.  With a completion client that answers
  \<open>Advantage Player 1\<close> only when it is shown a context, and two earlier tasks that both
  favoured player 1, the group's third result is \<open>none\<close>; called with the two results, the
  same task answers \<open>player1\<close>.
\<close>

theorem matchup_group_tactical_context:
  "(let style = \<lparr>factor = ''Factor 5.1 (Style Matchup)'', conclusion = ''Advantage Player 1'',
                  advantage = ''player1'', confidence = 0.6, reasoning = ''**Advantage Player 1**'',
                  agentName = ''Playing Style Profiler'', analysis = AnalysisData (),
                  processingTime = 1\<rparr>;
        h2h = \<lparr>factor = ''Factor 5.2 (Head-to-Head)'', conclusion = ''Advantage Player 1'',
                advantage = ''player1'', confidence = 0.7, reasoning = ''**Advantage Player 1**'',
                agentName = ''Head-to-Head Analyst'', analysis = AnalysisData (),
                processingTime = 1\<rparr>;
        completion = (\<lambda>factor' data.
           if styleContext data = None \<and> h2hContext data = None
           then Inr ''**No Clear Advantage**'' else Inr ''**Advantage Player 1**'');
        match = \<lparr>match_id = ''m'', player1Id = ''id-1'', player2Id = ''id-2'', surface = ''clay''\<rparr>;
        player1 = \<lparr>player_id = ''id-1'', player_name = ''A''\<rparr>;
        player2 = \<lparr>player_id = ''id-2'', player_name = ''B''\<rparr>
    in map (map_option raw_advantage)
         (projr (fst (runMatchupGroup (Inr style) (Inr h2h) completion match player1 player2 int this))) =
         [Some (Some ''player1''), Some (Some ''player1''), Some (Some ''none'')] \<and>
       advantage (analyzeTacticalBattle completion match player1 player2 (Some style) (Some h2h) 9 10) =
         ''player1'')"
  unfolding Let_def runMatchupGroup_results
  by (simp add: analyzeTacticalBattle_def analyzeTacticalBattle_try_def taskFunction_def toRaw_def
      tacticalAnalysisData_def extractAdvantage_def matchAt_def matchAdvantagePlayer_def
      matchSlightAdvantagePlayer_def matchNoClearAdvantage_def matchPlayerNum_def canonicalize_def
      Let_def)

section \<open>The in-flight guard\<close>

lemma currentAnalysis_updateAgentStatus [simp]:
  "currentAnalysis (updateAgentStatus n st now this) = currentAnalysis this"
  by (simp add: updateAgentStatus_def split: option.splits)

lemma agents_updateAgentStatus:
  "agents (updateAgentStatus n st now this) m =
     (if m = n
      then map_option (\<lambda>agent. agent\<lparr>status := st, lastActivity := now,
             totalAnalyses := (if st = Processing then totalAnalyses agent + 1 else totalAnalyses agent)\<rparr>)
             (agents this n)
      else agents this m)"
  by (simp add: updateAgentStatus_def split: option.splits)

lemma guardInvariant_start: "guardInvariant (startSystem clock random)"
  by (simp add: guardInvariant_def startSystem_def newAgentOrchestrator_def)

lemma guardInvariant_step: "guardInvariant sys \<Longrightarrow> guardInvariant (step sys e)"
proof (cases e)
  case (CallAnalyzeMatch match)
  assume "guardInvariant sys"
  then show ?thesis
    using CallAnalyzeMatch by (auto simp: guardInvariant_def analyzeMatch_enter_def Let_def)
next
  case (FinishAnalyzeMatch matchId)
  assume "guardInvariant sys"
  then show ?thesis
    using FinishAnalyzeMatch by (auto simp: guardInvariant_def analyzeMatch_finally_def)
next
  case (StartTask n now)
  assume "guardInvariant sys"
  then show ?thesis
    using StartTask by (simp add: guardInvariant_def runAgentAnalysis_start_def)
next
  case (SettleTask n ok now)
  assume "guardInvariant sys"
  then show ?thesis
    using SettleTask by (simp add: guardInvariant_def runAgentAnalysis_settle_def)
qed

lemma guardInvariant_foldl: "guardInvariant sys \<Longrightarrow> guardInvariant (foldl step sys events)"
  by (induction events arbitrary: sys) (simp_all add: guardInvariant_step)

lemma guardInvariant_runEvents: "guardInvariant (runEvents (startSystem clock random) events)"
  by (simp add: runEvents_def guardInvariant_foldl guardInvariant_start)

text \<open>
  Claim C2.  After any sequence of events from process start, no match id has two runs in
  flight.  A call of \<open>analyzeMatch\<close> for a match id that has a run in flight fails at once
  with \<open>Match analysis already in progress\<close> and changes nothing: it is neither queued nor
  joined to the run in flight.  A call for a match id with no run in flight passes the
  guard and is then in flight.
\<close>

theorem analyzeMatch_in_flight_guard:
  "(let sys = runEvents (startSystem clock random) events
    in distinct (inFlight sys) \<and>
       (\<forall>match. match_id match \<in> set (inFlight sys) \<longrightarrow>
          analyzeMatch_enter match (orchestrator sys) =
            Inl (JsError ''Match analysis already in progress'') \<and>
          step sys (CallAnalyzeMatch match) = sys) \<and>
       (\<forall>match. match_id match \<notin> set (inFlight sys) \<longrightarrow>
          inFlight (step sys (CallAnalyzeMatch match)) = match_id match # inFlight sys))"
proof -
  let ?sys = "runEvents (startSystem clock random) events"
  have inv: "guardInvariant ?sys" by (rule guardInvariant_runEvents)
  then have d: "distinct (inFlight ?sys)" by (simp add: guardInvariant_def)
  have busy: "analyzeMatch_enter match (orchestrator ?sys) =
                Inl (JsError ''Match analysis already in progress'') \<and>
              step ?sys (CallAnalyzeMatch match) = ?sys"
    if "match_id match \<in> set (inFlight ?sys)" for match
    using inv that by (simp add: guardInvariant_def analyzeMatch_enter_def Let_def)
  have free: "inFlight (step ?sys (CallAnalyzeMatch match)) = match_id match # inFlight ?sys"
    if "match_id match \<notin> set (inFlight ?sys)" for match
    using inv that by (simp add: guardInvariant_def analyzeMatch_enter_def Let_def)
  show ?thesis unfolding Let_def using d busy free by blast
qed

theorem analyzeMatch_in_flight_guard_witness:
  "(let match = \<lparr>match_id = ''m1'', player1Id = ''id-1'', player2Id = ''id-2'', surface = ''clay''\<rparr>;
        other = \<lparr>match_id = ''m2'', player1Id = ''id-3'', player2Id = ''id-4'', surface = ''grass''\<rparr>;
        sys = runEvents (startSystem (\<lambda>n. 0) (\<lambda>n. 0)) [CallAnalyzeMatch match]
    in inFlight sys = [''m1''] \<and>
       match_id match \<in> set (inFlight sys) \<and>
       match_id other \<notin> set (inFlight sys) \<and>
       analyzeMatch_enter match (orchestrator sys) =
         Inl (JsError ''Match analysis already in progress'') \<and>
       step sys (CallAnalyzeMatch match) = sys \<and>
       inFlight (step sys (CallAnalyzeMatch other)) = [''m2'', ''m1''])"
proof -
  let ?match = "\<lparr>match_id = ''m1'', player1Id = ''id-1'', player2Id = ''id-2'', surface = ''clay''\<rparr>"
  let ?other = "\<lparr>match_id = ''m2'', player1Id = ''id-3'', player2Id = ''id-4'', surface = ''grass''\<rparr>"
  let ?sys = "runEvents (startSystem (\<lambda>n. 0) (\<lambda>n. 0)) [CallAnalyzeMatch ?match]"
  have fl: "inFlight ?sys = [''m1'']"
    by (simp add: runEvents_def startSystem_def newAgentOrchestrator_def analyzeMatch_enter_def Let_def)
  have a: "match_id ?match \<in> set (inFlight ?sys)" and b: "match_id ?other \<notin> set (inFlight ?sys)"
    unfolding fl by simp_all
  from analyzeMatch_in_flight_guard [of "\<lambda>n. 0" "\<lambda>n. 0" "[CallAnalyzeMatch ?match]"]
  have g: "(\<forall>match. match_id match \<in> set (inFlight ?sys) \<longrightarrow>
          analyzeMatch_enter match (orchestrator ?sys) =
            Inl (JsError ''Match analysis already in progress'') \<and>
          step ?sys (CallAnalyzeMatch match) = ?sys)"
    and h: "(\<forall>match. match_id match \<notin> set (inFlight ?sys) \<longrightarrow>
          inFlight (step ?sys (CallAnalyzeMatch match)) = match_id match # inFlight ?sys)"
    unfolding Let_def by blast+
  from g a have g': "analyzeMatch_enter ?match (orchestrator ?sys) =
            Inl (JsError ''Match analysis already in progress'') \<and>
          step ?sys (CallAnalyzeMatch ?match) = ?sys" by blast
  from h b have h': "inFlight (step ?sys (CallAnalyzeMatch ?other)) = match_id ?other # inFlight ?sys"
    by blast
  show ?thesis unfolding Let_def using fl a b g' h' by simp
qed

section \<open>The status registry\<close>

lemma initializeAgents_idle:
  assumes "\<And>n a. registry n = Some a \<Longrightarrow> status a = Idle"
    and "initializeAgents defs clock random registry n = Some a"
  shows "status a = Idle"
  using assms
proof (induction defs clock random registry rule: initializeAgents.induct)
  case (1 clock random registry)
  then show ?case by simp
next
  case (2 agent_name agent_type rest clock random registry)
  show ?case
  proof (rule "2.IH")
    show "initializeAgents rest clock random
            (registry(agent_name \<mapsto>
               \<lparr>name = agent_name, agentType = agent_type, status = Idle,
                lastActivity = clock agent_name, accuracy = 85 + random agent_name * 15,
                totalAnalyses = 0\<rparr>)) n = Some a"
      using "2.prems"(2) by simp
  next
    fix m b
    assume "(registry(agent_name \<mapsto>
               \<lparr>name = agent_name, agentType = agent_type, status = Idle,
                lastActivity = clock agent_name, accuracy = 85 + random agent_name * 15,
                totalAnalyses = 0\<rparr>)) m = Some b"
    then show "status b = Idle"
      using "2.prems"(1) by (auto split: if_splits)
  qed
qed

lemma newAgentOrchestrator_idle:
  "agents (newAgentOrchestrator clock random) n = Some a \<Longrightarrow> status a = Idle"
  by (rule initializeAgents_idle [where registry = Map.empty and defs = agentDefinitions])
     (simp_all add: newAgentOrchestrator_def)

lemma touchedTasks_Cons: "touchedTasks (e # rest) = touchedTasks [e] \<union> touchedTasks rest"
  by (cases e) simp_all

lemma agents_step:
  assumes "agents (orchestrator (step sys e)) n = Some a"
  shows "\<exists>a0. agents (orchestrator sys) n = Some a0 \<and>
           ((status a = Idle) = (status a0 = Idle \<and> n \<notin> touchedTasks [e]))"
proof (cases e)
  case (CallAnalyzeMatch match)
  then show ?thesis
    using assms by (auto simp: analyzeMatch_enter_def Let_def split: if_splits)
next
  case (FinishAnalyzeMatch matchId)
  then show ?thesis
    using assms by (auto simp: analyzeMatch_finally_def split: if_splits)
next
  case (StartTask m now)
  then show ?thesis
    using assms
    by (auto simp: runAgentAnalysis_start_def agents_updateAgentStatus split: if_splits)
next
  case (SettleTask m ok now)
  then show ?thesis
    using assms
    by (cases ok) (auto simp: runAgentAnalysis_settle_def agents_updateAgentStatus split: if_splits)
qed

lemma agents_foldl_step:
  "agents (orchestrator (foldl step sys events)) n = Some a \<Longrightarrow>
   \<exists>a0. agents (orchestrator sys) n = Some a0 \<and>
     ((status a = Idle) = (status a0 = Idle \<and> n \<notin> touchedTasks events))"
proof (induction events arbitrary: sys)
  case Nil
  then show ?case by simp
next
  case (Cons e events)
  from Cons.prems have "agents (orchestrator (foldl step (step sys e) events)) n = Some a"
    by simp
  from Cons.IH [OF this] obtain a1 where
    a1: "agents (orchestrator (step sys e)) n = Some a1"
    and s1: "(status a = Idle) = (status a1 = Idle \<and> n \<notin> touchedTasks events)"
    by blast
  from agents_step [OF a1] obtain a0 where
    a0: "agents (orchestrator sys) n = Some a0"
    and s0: "(status a1 = Idle) = (status a0 = Idle \<and> n \<notin> touchedTasks [e])"
    by blast
  have "(status a = Idle) = (status a0 = Idle \<and> n \<notin> touchedTasks (e # events))"
    using s0 s1 touchedTasks_Cons [of e events] by auto
  with a0 show ?case by blast
qed

lemma status_cases: "status a \<in> {Idle, Processing, Active, Error}"
  by (cases "status a") simp_all

text \<open>
  The state machine of claim C8, for a task that has an entry in the registry: its status
  is one of idle, processing, active and error; starting the task sets the status to
  processing, whatever it was; the task's success sets it to active and hands the result on;
  its failure sets it to error and rethrows; no other entry changes.  Every entry is idle at
  process start, and after any sequence of events an entry is idle exactly when its task
  has never been run.
\<close>

theorem agent_status_state_machine:
  "(\<forall>agent. agents this n = Some agent \<longrightarrow>
      status agent \<in> {Idle, Processing, Active, Error} \<and>
      map_option status (agents (runAgentAnalysis_start n now this) n) = Some Processing \<and>
      map_option status (agents (snd (runAgentAnalysis_settle n (Inr result) now this)) n) = Some Active \<and>
      fst (runAgentAnalysis_settle n (Inr result) now this) = Inr result \<and>
      map_option status (agents (snd (runAgentAnalysis_settle n (Inl e) now this)) n) = Some Error \<and>
      fst (runAgentAnalysis_settle n (Inl e :: js_error + 'a) now this) = Inl e \<and>
      (\<forall>m. m \<noteq> n \<longrightarrow>
         agents (runAgentAnalysis_start n now this) m = agents this m \<and>
         agents (snd (runAgentAnalysis_settle n (Inr result) now this)) m = agents this m \<and>
         agents (snd (runAgentAnalysis_settle n (Inl e :: js_error + 'a) now this)) m = agents this m)) \<and>
   (\<forall>agent. agents (newAgentOrchestrator clock random) n = Some agent \<longrightarrow> status agent = Idle) \<and>
   (\<forall>agent. agents (orchestrator (runEvents (startSystem clock random) events)) n = Some agent \<longrightarrow>
      (status agent = Idle) = (n \<notin> touchedTasks events))"
proof -
  have step: "status agent \<in> {Idle, Processing, Active, Error} \<and>
      map_option status (agents (runAgentAnalysis_start n now this) n) = Some Processing \<and>
      map_option status (agents (snd (runAgentAnalysis_settle n (Inr result) now this)) n) = Some Active \<and>
      fst (runAgentAnalysis_settle n (Inr result) now this) = Inr result \<and>
      map_option status (agents (snd (runAgentAnalysis_settle n (Inl e) now this)) n) = Some Error \<and>
      fst (runAgentAnalysis_settle n (Inl e :: js_error + 'a) now this) = Inl e \<and>
      (\<forall>m. m \<noteq> n \<longrightarrow>
         agents (runAgentAnalysis_start n now this) m = agents this m \<and>
         agents (snd (runAgentAnalysis_settle n (Inr result) now this)) m = agents this m \<and>
         agents (snd (runAgentAnalysis_settle n (Inl e :: js_error + 'a) now this)) m = agents this m)"
    if "agents this n = Some agent" for agent
    using that status_cases [of agent]
    by (simp add: runAgentAnalysis_start_def runAgentAnalysis_settle_def agents_updateAgentStatus)
  have init: "status agent = Idle" if "agents (newAgentOrchestrator clock random) n = Some agent" for agent
    using that by (rule newAgentOrchestrator_idle)
  have reach: "(status agent = Idle) = (n \<notin> touchedTasks events)"
    if "agents (orchestrator (runEvents (startSystem clock random) events)) n = Some agent" for agent
  proof -
    from that have "agents (orchestrator (foldl step (startSystem clock random) events)) n = Some agent"
      by (simp add: runEvents_def)
    from agents_foldl_step [OF this] obtain a0 where
      a0: "agents (orchestrator (startSystem clock random)) n = Some a0"
      and s: "(status agent = Idle) = (status a0 = Idle \<and> n \<notin> touchedTasks events)"
      by blast
    from a0 have "status a0 = Idle"
      by (simp add: startSystem_def newAgentOrchestrator_idle)
    with s show ?thesis by simp
  qed
  show ?thesis using step init reach by blast
qed

theorem agent_status_state_machine_example:
  "(let this = newAgentOrchestrator (\<lambda>n. 0) (\<lambda>n. 0);
        events = [StartTask ''News Monitor'' 1, SettleTask ''News Monitor'' True 2];
        sys = runEvents (startSystem (\<lambda>n. 0) (\<lambda>n. 0)) events
    in agents this ''News Monitor'' =
         Some \<lparr>name = ''News Monitor'', agentType = ''contextual'', status = Idle,
               lastActivity = 0, accuracy = 85, totalAnalyses = 0\<rparr> \<and>
       map_option status (agents (runAgentAnalysis_start ''News Monitor'' 1 this) ''News Monitor'') =
         Some Processing \<and>
       map_option status
         (agents (snd (runAgentAnalysis_settle ''News Monitor'' (Inr ()) 1 this)) ''News Monitor'') =
         Some Active \<and>
       map_option status
         (agents (snd (runAgentAnalysis_settle ''News Monitor'' (Inl (JsError ''x'') :: js_error + unit) 1 this))
            ''News Monitor'') = Some Error \<and>
       ''Momentum Analyst'' \<noteq> ''News Monitor'' \<and>
       agents (runAgentAnalysis_start ''News Monitor'' 1 this) ''Momentum Analyst'' =
         agents this ''Momentum Analyst'' \<and>
       agents (orchestrator sys) ''News Monitor'' =
         Some \<lparr>name = ''News Monitor'', agentType = ''contextual'', status = Active,
               lastActivity = 2, accuracy = 85, totalAnalyses = 1\<rparr> \<and>
       ''News Monitor'' \<in> touchedTasks events)"
proof -
  let ?orc = "newAgentOrchestrator (\<lambda>n. 0) (\<lambda>n. 0)"
  let ?events = "[StartTask ''News Monitor'' 1, SettleTask ''News Monitor'' True 2]"
  let ?sys = "runEvents (startSystem (\<lambda>n. 0) (\<lambda>n. 0)) ?events"
  let ?agent = "\<lparr>name = ''News Monitor'', agentType = ''contextual'', status = Idle,
               lastActivity = 0, accuracy = 85, totalAnalyses = 0\<rparr>"
  let ?after = "\<lparr>name = ''News Monitor'', agentType = ''contextual'', status = Active,
               lastActivity = 2, accuracy = 85, totalAnalyses = 1\<rparr>"
  have entry: "agents ?orc ''News Monitor'' = Some ?agent"
    by (simp add: newAgentOrchestrator_def agentDefinitions_def)
  have after: "agents (orchestrator ?sys) ''News Monitor'' = Some ?after"
    by (simp add: runEvents_def startSystem_def runAgentAnalysis_start_def
        runAgentAnalysis_settle_def agents_updateAgentStatus entry)
  have ne: "''Momentum Analyst'' \<noteq> ''News Monitor''" by simp
  note inst = agent_status_state_machine
    [of ?orc "''News Monitor''" 1 "()" "JsError ''x''" "\<lambda>n. 0" "\<lambda>n. 0" ?events]
  from inst entry have
    a: "map_option status (agents (runAgentAnalysis_start ''News Monitor'' 1 ?orc) ''News Monitor'') =
         Some Processing"
    and b: "map_option status
         (agents (snd (runAgentAnalysis_settle ''News Monitor'' (Inr ()) 1 ?orc)) ''News Monitor'') =
         Some Active"
    and c: "map_option status
         (agents (snd (runAgentAnalysis_settle ''News Monitor'' (Inl (JsError ''x'') :: js_error + unit) 1 ?orc))
            ''News Monitor'') = Some Error"
    and d: "\<forall>m. m \<noteq> ''News Monitor'' \<longrightarrow>
         agents (runAgentAnalysis_start ''News Monitor'' 1 ?orc) m = agents ?orc m"
    by blast+
  from inst after have "(status ?after = Idle) = (''News Monitor'' \<notin> touchedTasks ?events)"
    by blast
  then have t: "''News Monitor'' \<in> touchedTasks ?events" by simp
  from d [rule_format, OF ne]
  have d': "agents (runAgentAnalysis_start ''News Monitor'' 1 ?orc) ''Momentum Analyst'' =
         agents ?orc ''Momentum Analyst''" .
  show ?thesis
    unfolding Let_def
    by (intro conjI) (rule entry a b c ne d' after t)+
qed

text \<open>
  Claim C8, evaluated at the start of the physical-condition group on a fresh orchestrator.
  The orchestrator starts four tasks.  Three of them become \<open>processing\<close>; the task started
  under the name \<open>Recent Match Physical Toll Analyst\<close> has no entry in the registry, so
  starting it, and settling it, change nothing and it never has a status.
\<close>

theorem unregistered_task_has_no_status:
  "(let this = newAgentOrchestrator (\<lambda>n. 0) (\<lambda>n. 0);
        started = startPhysicalGroup int this
    in map (\<lambda>n. map_option status (agents started n)) physicalGroupNames =
         [Some Processing, None, Some Processing, Some Processing] \<and>
       runAgentAnalysis_start ''Recent Match Physical Toll Analyst'' 1 this = this \<and>
       snd (runAgentAnalysis_settle ''Recent Match Physical Toll Analyst'' (Inr ()) 2 this) = this \<and>
       snd (runAgentAnalysis_settle ''Recent Match Physical Toll Analyst''
              (Inl (JsError ''failed'') :: js_error + unit) 2 this) = this)"
proof -
  let ?orc = "newAgentOrchestrator (\<lambda>n. 0) (\<lambda>n. 0)"
  have none: "agents ?orc ''Recent Match Physical Toll Analyst'' = None"
    by (simp add: newAgentOrchestrator_def agentDefinitions_def)
  have same: "updateAgentStatus ''Recent Match Physical Toll Analyst'' st now ?orc = ?orc" for st now
    by (simp add: updateAgentStatus_def none)
  have statuses: "map (\<lambda>n. map_option status (agents (startPhysicalGroup int ?orc) n)) physicalGroupNames =
         [Some Processing, None, Some Processing, Some Processing]"
    by (simp add: startPhysicalGroup_def physicalGroupNames_def runAgentAnalysis_start_def
        agents_updateAgentStatus newAgentOrchestrator_def agentDefinitions_def)
  show ?thesis
    unfolding Let_def
    by (intro conjI statuses) (simp_all add: runAgentAnalysis_start_def runAgentAnalysis_settle_def same)
qed

section \<open>The advantage extractor\<close>

lemma matchLiteral_Some:
  "matchLiteral p s = Some (m, rest) \<Longrightarrow>
   s = m @ rest \<and> length m = length p \<and> map canonicalize m = map canonicalize p"
proof (induction p s arbitrary: m rest rule: matchLiteral.induct)
  case (1 input)
  then show ?case by simp
next
  case (2 p ps)
  then show ?case by simp
next
  case (3 p ps c cs)
  then show ?case by (auto split: if_splits option.splits)
qed

lemma matchLiteral_ciPrefix: "(matchLiteral p s \<noteq> None) = ciPrefix p s"
proof (induction p s rule: matchLiteral.induct)
  case (1 input)
  then show ?case by (simp add: ciPrefix_def)
next
  case (2 p ps)
  then show ?case by (simp add: ciPrefix_def)
next
  case (3 p ps c cs)
  then show ?case by (auto simp: ciPrefix_def split: option.splits)
qed


lemma matchLiteral_take_drop:
  "ciPrefix p s \<Longrightarrow> matchLiteral p s = Some (take (length p) s, drop (length p) s)"
proof -
  assume "ciPrefix p s"
  then obtain m rest where mr: "matchLiteral p s = Some (m, rest)"
    using matchLiteral_ciPrefix [of p s] by auto
  from matchLiteral_Some [OF mr] have "s = m @ rest" "length m = length p" by auto
  then have "take (length p) s = m" "drop (length p) s = rest" by auto
  with mr show ?thesis by simp
qed



lemma canonicalize_other:
  assumes "c \<notin> set ''abcdefghijklmnopqrstuvwxyz''"
  shows "canonicalize c = c"
proof -
  have "length ''abcdefghijklmnopqrstuvwxyz'' = length ''ABCDEFGHIJKLMNOPQRSTUVWXYZ''"
    by simp
  from map_of_zip_is_None [OF this, of c] assms
  have "map_of (zip ''abcdefghijklmnopqrstuvwxyz'' ''ABCDEFGHIJKLMNOPQRSTUVWXYZ'') c = None"
    by blast
  then show ?thesis unfolding canonicalize_def by (simp only: option.case)
qed

lemma digit_not_lower: "d \<in> digitChars \<Longrightarrow> d \<notin> set ''abcdefghijklmnopqrstuvwxyz''"
  by (auto simp: digitChars_def)


lemma canonicalize_of_digit: "d \<in> digitChars \<Longrightarrow> canonicalize d = d"
  by (rule canonicalize_other) (rule digit_not_lower)














lemma regExpSearch_here: "matchAt s = Some m \<Longrightarrow> regExpSearch s = Some m"
  by (cases s) simp_all
















text \<open>
  The pattern ignores the case of letters, the two tests on the matched text do not.  A
  marker in lower case is found, fails the test for \<open>No Clear\<close>, and has no captured digit.
\<close>

lemma extractAdvantage_lowercase_marker:
  "extractAdvantage ''**no clear advantage**'' =
     \<lparr>adv_player = ''playerundefined'', adv_conclusion = ''Advantage Player undefined''\<rparr>"
proof -
  have 0: "matchAdvantagePlayer ''**no clear advantage**'' = None"
    by (simp add: matchAdvantagePlayer_def canonicalize_def)
  have 1: "matchSlightAdvantagePlayer ''**no clear advantage**'' = None"
    by (simp add: matchSlightAdvantagePlayer_def canonicalize_def)
  have "ciPrefix ''**No Clear Advantage**'' ''**no clear advantage**''"
    by (simp add: ciPrefix_def canonicalize_def)
  from matchLiteral_take_drop [OF this]
  have 2: "matchLiteral ''**No Clear Advantage**'' ''**no clear advantage**'' =
           Some (''**no clear advantage**'', [])"
    by simp
  have "matchAt ''**no clear advantage**'' =
        Some \<lparr>match0 = ''**no clear advantage**'', match1 = None, match2 = None\<rparr>"
    by (simp only: matchAt_def 0 1 matchNoClearAdvantage_def 2 option.case prod.case)
  then have r: "regExpSearch ''**no clear advantage**'' =
        Some \<lparr>match0 = ''**no clear advantage**'', match1 = None, match2 = None\<rparr>"
    by (rule regExpSearch_here)
  show ?thesis
    unfolding extractAdvantage_def r by (simp add: Let_def)
qed

end
